theory Spec2Isabelle
  imports Complex_Main "HOL-Library.Sublist"
begin

section \<open>JavaScript values\<close>

text \<open>
  A JavaScript string is a sequence of UTF-16 code units. The sources carry Japanese
  literals, so a code unit is a natural number (below 65536) and a string is a list of
  them. ASCII literals are written with \<open>asc\<close>.
\<close>

type_synonym jsstring = "nat list"

definition asc :: "string \<Rightarrow> jsstring" where
  "asc s = map of_char s"

text \<open>\<open>s.endsWith(t)\<close>\<close>

definition endsWith :: "jsstring \<Rightarrow> jsstring \<Rightarrow> bool" where
  "endsWith s t = (length t \<le> length s \<and> drop (length s - length t) s = t)"

text \<open>\<open>a || b\<close> on strings: the empty string is falsy.\<close>

definition or_str :: "jsstring \<Rightarrow> jsstring \<Rightarrow> jsstring" where
  "or_str a b = (if a \<noteq> [] then a else b)"

text \<open>\<open>a || b\<close> where \<open>a\<close> may be undefined (\<open>None\<close>).\<close>

definition or_opt :: "jsstring option \<Rightarrow> jsstring \<Rightarrow> jsstring" where
  "or_opt a b = (case a of None \<Rightarrow> b | Some s \<Rightarrow> or_str s b)"

text \<open>Truthiness of an optional string: defined and not empty.\<close>

definition truthy :: "jsstring option \<Rightarrow> bool" where
  "truthy a = (case a of None \<Rightarrow> False | Some s \<Rightarrow> s \<noteq> [])"

text \<open>
  A set of code units given as a union of inclusive ranges, and the white space and line
  terminators, as \<open>trim\<close> and the class \<open>\s\<close> take them.
\<close>

definition in_ranges :: "(nat \<times> nat) list \<Rightarrow> nat \<Rightarrow> bool" where
  "in_ranges rs c = list_ex (\<lambda>(lo, hi). lo \<le> c \<and> c \<le> hi) rs"

definition space :: "(nat \<times> nat) list" where
  "space = [(9, 13), (32, 32), (160, 160), (5760, 5760), (8192, 8202), (8232, 8233),
     (8239, 8239), (8287, 8287), (12288, 12288), (65279, 65279)]"

definition is_space :: "nat \<Rightarrow> bool" where
  "is_space c = in_ranges space c"

definition trim :: "jsstring \<Rightarrow> jsstring" where
  "trim s = rev (dropWhile is_space (rev (dropWhile is_space s)))"

text \<open>
  \<open>split_at p s\<close> cuts \<open>s\<close> at the first occurrence of \<open>p\<close> and returns what stands
  before and after it; \<open>s.includes(p)\<close> asks whether there is one.
\<close>

fun split_at :: "jsstring \<Rightarrow> jsstring \<Rightarrow> (jsstring \<times> jsstring) option" where
  "split_at p [] = (if p = [] then Some ([], []) else None)"
| "split_at p (c # cs) =
     (if prefix p (c # cs) then Some ([], drop (length p) (c # cs))
      else (case split_at p cs of None \<Rightarrow> None | Some (b, a) \<Rightarrow> Some (c # b, a)))"

definition js_includes :: "jsstring \<Rightarrow> jsstring \<Rightarrow> bool" where
  "js_includes s p = (split_at p s \<noteq> None)"

text \<open>
  \<open>String.prototype.replace\<close> with a string pattern replaces the first occurrence
  and expands the dollar patterns of the replacement: \<open>$$\<close> is a dollar sign,
  \<open>$&\<close> the matched text, \<open>$`\<close> what stands before the match and \<open>$'\<close> what
  stands after it. There are no captures, so a dollar sign before anything else stays.
\<close>

fun GetSubstitution :: "jsstring \<Rightarrow> jsstring \<Rightarrow> jsstring \<Rightarrow> jsstring \<Rightarrow> jsstring" where
  "GetSubstitution matched pre post [] = []"
| "GetSubstitution matched pre post [c] = [c]"
| "GetSubstitution matched pre post (c # d # cs) =
     (if c = 36 then
        (if d = 36 then 36 # GetSubstitution matched pre post cs
         else if d = 38 then matched @ GetSubstitution matched pre post cs
         else if d = 96 then pre @ GetSubstitution matched pre post cs
         else if d = 39 then post @ GetSubstitution matched pre post cs
         else 36 # GetSubstitution matched pre post (d # cs))
      else c # GetSubstitution matched pre post (d # cs))"

definition replace :: "jsstring \<Rightarrow> jsstring \<Rightarrow> jsstring \<Rightarrow> jsstring" where
  "replace s p r =
     (case split_at p s of
        None \<Rightarrow> s
      | Some (b, a) \<Rightarrow> b @ GetSubstitution p b a r @ a)"

text \<open>\<open>s.split('\n')\<close>\<close>

fun split_nl :: "jsstring \<Rightarrow> jsstring list" where
  "split_nl [] = [[]]"
| "split_nl (c # cs) =
     (if c = 10 then [] # split_nl cs
      else (case split_nl cs of l # ls \<Rightarrow> (c # l) # ls | [] \<Rightarrow> [[c]]))"

text \<open>\<open>text.split('\n').filter(line => line.trim())\<close>\<close>

definition nonblank_lines :: "jsstring \<Rightarrow> jsstring list" where
  "nonblank_lines text = filter (\<lambda>line. trim line \<noteq> []) (split_nl text)"

text \<open>
  A JavaScript number: a finite value, an infinity or NaN. Finite values are taken as
  the reals they denote; comparison, \<open>Math.max\<close> and \<open>Math.min\<close> do not round.
\<close>

datatype jsnum = Fin real | PosInf | NegInf | NaN

text \<open>\<open>a < b\<close>: false as soon as one side is NaN.\<close>

fun js_less :: "jsnum \<Rightarrow> jsnum \<Rightarrow> bool" where
  "js_less NaN b = False"
| "js_less a NaN = False"
| "js_less (Fin x) (Fin y) = (x < y)"
| "js_less NegInf b = (b \<noteq> NegInf)"
| "js_less a PosInf = (a \<noteq> PosInf)"
| "js_less a b = False"

fun Math_max :: "jsnum \<Rightarrow> jsnum \<Rightarrow> jsnum" where
  "Math_max NaN b = NaN"
| "Math_max a NaN = NaN"
| "Math_max a b = (if js_less a b then b else a)"

fun Math_min :: "jsnum \<Rightarrow> jsnum \<Rightarrow> jsnum" where
  "Math_min NaN b = NaN"
| "Math_min a NaN = NaN"
| "Math_min a b = (if js_less b a then b else a)"

text \<open>
  A value that \<open>JSON.parse\<close> returns. In an object a later binding of a key overrides
  an earlier one. A number is taken as the real that its literal denotes.
\<close>

datatype json = JNull | JBool bool | JNum real | JStr jsstring | JArr "json list"
  | JObj "(jsstring \<times> json) list"

definition field :: "(jsstring \<times> json) list \<Rightarrow> jsstring \<Rightarrow> json option" where
  "field kvs k = map_of (rev kvs) k"

text \<open>Truthiness of a property of a parsed value (\<open>None\<close>: the property is missing).\<close>

definition json_truthy :: "json option \<Rightarrow> bool" where
  "json_truthy v =
     (case v of
        None \<Rightarrow> False
      | Some JNull \<Rightarrow> False
      | Some (JBool b) \<Rightarrow> b
      | Some (JNum x) \<Rightarrow> x \<noteq> 0
      | Some (JStr s) \<Rightarrow> s \<noteq> []
      | Some _ \<Rightarrow> True)"

text \<open>
  The conversion of a string to a number: white space is trimmed; the empty string is
  0; then come \<open>Infinity\<close> with an optional sign, the unsigned literals in base 16, 8
  and 2, and the signed decimal literals with a fraction and an exponent. Everything else
  is NaN.
\<close>

definition is_digit :: "nat \<Rightarrow> bool" where
  "is_digit c = (48 \<le> c \<and> c \<le> 57)"

definition digit_value :: "nat \<Rightarrow> nat" where
  "digit_value c =
     (if 48 \<le> c \<and> c \<le> 57 then c - 48
      else if 97 \<le> c \<and> c \<le> 102 then c - 87
      else c - 55)"

definition is_digit_of :: "nat \<Rightarrow> nat \<Rightarrow> bool" where
  "is_digit_of base c =
     ((48 \<le> c \<and> c \<le> 57 \<or> 97 \<le> c \<and> c \<le> 102 \<or> 65 \<le> c \<and> c \<le> 70)
      \<and> digit_value c < base)"

definition digits_value :: "nat \<Rightarrow> jsstring \<Rightarrow> nat" where
  "digits_value base ds = foldl (\<lambda>a c. base * a + digit_value c) 0 ds"

definition radix_literal :: "nat \<Rightarrow> jsstring \<Rightarrow> jsnum" where
  "radix_literal base ds =
     (if ds \<noteq> [] \<and> list_all (is_digit_of base) ds then Fin (real (digits_value base ds))
      else NaN)"

text \<open>The exponent part after the mantissa \<open>m\<close>: nothing, or \<open>e\<close>, a sign and digits.\<close>

definition exponent_part :: "real \<Rightarrow> jsstring \<Rightarrow> real option" where
  "exponent_part m s =
     (case s of
        [] \<Rightarrow> Some m
      | e # r \<Rightarrow>
          (if e = 101 \<or> e = 69 then
             (let neg = (r \<noteq> [] \<and> hd r = 45);
                  ds = (if r \<noteq> [] \<and> (hd r = 43 \<or> hd r = 45) then tl r else r)
              in if ds \<noteq> [] \<and> list_all is_digit ds
                 then Some (if neg then m / 10 ^ digits_value 10 ds else m * 10 ^ digits_value 10 ds)
                 else None)
           else None))"

definition unsigned_decimal :: "jsstring \<Rightarrow> real option" where
  "unsigned_decimal s =
     (let ip = takeWhile is_digit s; r1 = dropWhile is_digit s;
          dot = (r1 \<noteq> [] \<and> hd r1 = 46);
          fp = (if dot then takeWhile is_digit (tl r1) else []);
          r2 = (if dot then dropWhile is_digit (tl r1) else r1)
      in if ip = [] \<and> fp = [] then None
         else exponent_part
                (real (digits_value 10 ip) + real (digits_value 10 fp) / 10 ^ length fp) r2)"

definition StringToNumber :: "jsstring \<Rightarrow> jsnum" where
  "StringToNumber s =
     (let t = trim s in
      if t = [] then Fin 0
      else if t = asc ''Infinity'' \<or> t = asc ''+Infinity'' then PosInf
      else if t = asc ''-Infinity'' then NegInf
      else if prefix (asc ''0x'') t \<or> prefix (asc ''0X'') t then radix_literal 16 (drop 2 t)
      else if prefix (asc ''0o'') t \<or> prefix (asc ''0O'') t then radix_literal 8 (drop 2 t)
      else if prefix (asc ''0b'') t \<or> prefix (asc ''0B'') t then radix_literal 2 (drop 2 t)
      else if hd t = 45 then
        (case unsigned_decimal (tl t) of None \<Rightarrow> NaN | Some x \<Rightarrow> Fin (- x))
      else
        (case unsigned_decimal (if hd t = 43 then tl t else t) of
           None \<Rightarrow> NaN | Some x \<Rightarrow> Fin x))"

text \<open>
  The conversion of a parsed value to a string throws when an object has a property
  \<open>toString\<close> of its own, which is never callable; an array converts its elements.
\<close>

fun ToString_throws :: "json \<Rightarrow> bool" where
  "ToString_throws (JObj kvs) = (field kvs (asc ''toString'') \<noteq> None)"
| "ToString_throws (JArr vs) = list_ex ToString_throws vs"
| "ToString_throws v = False"

text \<open>
  The number that the string of an array denotes: the empty array gives the empty
  string; a single element gives its own string (empty for \<open>null\<close>, and for a number
  the literal that reads back as the number); more elements give a string with a comma,
  and the string of a Boolean or of an object is no numeric literal.
\<close>

fun joined_number :: "json \<Rightarrow> jsnum" where
  "joined_number (JArr []) = Fin 0"
| "joined_number (JArr [v]) = joined_number v"
| "joined_number (JArr (v # w # vs)) = NaN"
| "joined_number JNull = Fin 0"
| "joined_number (JNum x) = Fin x"
| "joined_number (JStr s) = StringToNumber s"
| "joined_number (JBool b) = NaN"
| "joined_number (JObj kvs) = NaN"

text \<open>\<open>ToNumber\<close>, as \<open>Math.min\<close> applies it to an argument; \<open>None\<close> is the TypeError.\<close>

definition ToNumber :: "json \<Rightarrow> jsnum option" where
  "ToNumber v =
     (if ToString_throws v then None
      else Some (case v of
                   JNull \<Rightarrow> Fin 0
                 | JBool b \<Rightarrow> Fin (if b then 1 else 0)
                 | JNum x \<Rightarrow> Fin x
                 | JStr s \<Rightarrow> StringToNumber s
                 | JArr vs \<Rightarrow> joined_number (JArr vs)
                 | JObj kvs \<Rightarrow> NaN))"

text \<open>\<open>v || d\<close> on a property of a parsed value.\<close>

definition or_json :: "json option \<Rightarrow> json \<Rightarrow> json" where
  "or_json v d = (if json_truthy v then the v else d)"

section \<open>server/src/helpers/generateMail.ts\<close>

text \<open>The module stands in \<open>src/server/src/helpers/gmail.ts\<close>, after \<open>gmail.ts\<close> itself.\<close>

text \<open>
  The outcome of \<open>openai.chat.completions.create\<close> followed by \<open>JSON.parse\<close>:
  the call is rejected, the first choice carries no content, the content is not JSON,
  or it parses to a value.
\<close>

datatype completion = Rejected | NoContent | Unparsable | Parsed json

record Recipient =
  r_name :: jsstring
  r_email :: jsstring
  r_company :: jsstring
  r_role :: "jsstring option"

record MailContent =
  m_subject :: jsstring
  m_body :: jsstring

record TemplateOverrides =
  o_subject :: "jsstring option"
  o_body :: "jsstring option"

text \<open>The closing sentence \<open>go-henshin omachi shite orimasu.\<close> of the system prompt.\<close>

definition closing_phrase :: jsstring where
  "closing_phrase =
    [12372, 36820, 20449, 12362, 24453, 12385, 12375, 12390, 12362, 12426, 12414, 12377, 12290]"

text \<open>The user prompt, a template literal over the recipient.\<close>

definition userPrompt :: "Recipient \<Rightarrow> jsstring" where
  "userPrompt r =
     [10, 21517, 21069, 58, 32] @ r_name r @
     [10, 20250, 31038, 58, 32] @ r_company r @ [10] @
     (if truthy (r_role r) then [24441, 32887, 58, 32] @ the (r_role r) else []) @
     [10, 10, 19978, 35352, 12398, 26041, 12408, 12398, 12501, 12457, 12525, 12540, 12450,
      12483, 12503, 12513, 12540, 12523, 12434, 20316, 25104, 12375, 12390, 12367, 12384,
      12373, 12356, 12290, 10, 20214, 21517, 12418, 21547, 12417, 12390, 25552, 26696,
      12375, 12390, 12367, 12384, 12373, 12356, 12290, 10]"

text \<open>\<open>emailSchema.parse\<close>: an object whose \<open>subject\<close> and \<open>body\<close> are strings.\<close>

definition emailSchema_parse :: "json \<Rightarrow> MailContent option" where
  "emailSchema_parse j =
     (case j of
        JObj kvs \<Rightarrow>
          (case (field kvs (asc ''subject''), field kvs (asc ''body'')) of
             (Some (JStr s), Some (JStr b)) \<Rightarrow> Some \<lparr>m_subject = s, m_body = b\<rparr>
           | _ \<Rightarrow> None)
      | _ \<Rightarrow> None)"

text \<open>The fallback template of the \<open>catch\<close> block.\<close>

definition fallback_template :: "Recipient \<Rightarrow> MailContent" where
  "fallback_template r =
     \<lparr>m_subject = r_company r @ [32] @ r_name r @ [27096, 32, 45, 32, 12372, 25384, 25334],
      m_body = r_name r @ [27096, 10, 10] @
        [20808, 26085, 12399, 12362, 26178, 38291, 12434, 12356, 12383, 12384, 12365, 12354,
         12426, 12364, 12392, 12358, 12372, 12374, 12356, 12414, 12375, 12383, 12290, 10] @
        r_company r @
        [27096, 12398, 20107, 26989, 12395, 12388, 12356, 12390, 22823, 22793, 33288, 21619,
         28145, 12367, 25309, 32884, 12356, 12383, 12375, 12414, 12375, 12383, 12290, 10, 10] @
        [12380, 12402, 19968, 24230, 12289, 35443, 12375, 12367, 12362, 35441, 12434, 12362,
         32862, 12363, 12379, 12356, 12383, 12384, 12369, 12428, 12400, 24184, 12356, 12391,
         12377, 12290, 10] @
        [12372, 37117, 21512, 12398, 12424, 12429, 12375, 12356, 26085, 26178, 12434, 12362,
         30693, 12425, 12379, 12367, 12384, 12373, 12356, 12290, 10, 10] @
        closing_phrase\<rparr>"

text \<open>
  \<open>generateMail\<close>. The OpenAI client is a function from the user prompt to the outcome
  of the call; the result is paired with the prompts that were sent, in order, so that
  a run that never reaches the client returns the empty list.
\<close>

definition generateMail :: "(jsstring \<Rightarrow> completion) \<Rightarrow> Recipient \<Rightarrow> TemplateOverrides option
    \<Rightarrow> MailContent \<times> jsstring list" where
  "generateMail openai recipient overrides =
     (if (case overrides of None \<Rightarrow> False | Some ov \<Rightarrow> truthy (o_subject ov) \<and> truthy (o_body ov))
      then (\<lparr>m_subject = the (o_subject (the overrides)), m_body = the (o_body (the overrides))\<rparr>, [])
      else
        (let p = userPrompt recipient in
         (case openai p of
            Parsed j \<Rightarrow>
              (case emailSchema_parse j of
                 Some validated \<Rightarrow>
                   (if \<not> endsWith (m_body validated) closing_phrase
                    then validated\<lparr>m_body := m_body validated @ [10, 10] @ closing_phrase\<rparr>
                    else validated)
               | None \<Rightarrow> fallback_template recipient)
          | _ \<Rightarrow> fallback_template recipient,
          [p])))"

section \<open>server/src/helpers/emailGenerator.ts\<close>

datatype tone = professional | friendly | casual

datatype language = ja | en

record BusinessCardData =
  bc_name :: "jsstring option"
  bc_company :: "jsstring option"
  bc_role :: "jsstring option"
  bc_email :: "jsstring option"
  bc_phone :: "jsstring option"
  bc_address :: "jsstring option"
  bc_website :: "jsstring option"

record GenerateEmailOptions =
  ge_cardData :: BusinessCardData
  ge_senderName :: jsstring
  ge_senderCompany :: "jsstring option"
  ge_tone :: "tone option"
  ge_language :: "language option"
  ge_customMessage :: "jsstring option"

text \<open>
  An email content as it exists at run time, every property possibly undefined (the
  \<open>Partial\<close> of the declared type). \<open>generateTemplateEmail\<close> is declared to return
  an \<open>EmailContent\<close>, but what it builds is the spread of \<open>templates[tone]\<close>, and that
  has no properties when \<open>tone\<close> is undefined.
\<close>

record Partial_EmailContent =
  pe_subject :: "jsstring option"
  pe_body :: "jsstring option"
  pe_tone :: "tone option"
  pe_language :: "language option"

text \<open>
  The Japanese templates: subject and body for the recipient name \<open>n\<close> (which is
  \<open>cardData.name || ''\<close>) and the sender \<open>s\<close>.
\<close>

definition templates_ja :: "jsstring \<Rightarrow> jsstring \<Rightarrow> tone \<Rightarrow> jsstring \<times> jsstring" where
  "templates_ja n s t =
     (case t of
        professional \<Rightarrow>
         (n @ [27096, 12289, 12362, 19990, 35441, 12395, 12394, 12387, 12390, 12362, 12426,
          12414, 12377],
          n @ [27096, 10, 10, 12362, 19990, 35441, 12395, 12394, 12387, 12390, 12362, 12426,
          12414, 12377, 12290, 10] @ s @ [12391, 12377, 12290, 10, 10, 26412, 26085, 12399,
          36020, 37325, 12394, 12362, 26178, 38291, 12434, 12356, 12383, 12384, 12365, 12289,
          12354, 12426, 12364, 12392, 12358, 12372, 12374, 12356, 12414, 12375, 12383, 12290,
          10, 21517, 21050, 20132, 25563, 12434, 12373, 12379, 12390, 12356, 12383, 12384,
          12365, 12289, 20809, 26628, 12391, 12375, 12383, 12290, 10, 10, 20170, 24460, 12392,
          12418, 12393, 12358, 12382, 12424, 12429, 12375, 12367, 12362, 39000, 12356, 12356,
          12383, 12375, 12414, 12377, 12290, 10, 10] @ s)
      | friendly \<Rightarrow>
         (n @ [27096, 12289, 12354, 12426, 12364, 12392, 12358, 12372, 12374, 12356, 12414,
          12375, 12383],
          n @ [27096, 10, 10] @ s @ [12391, 12377, 12290, 10, 10, 20170, 26085, 12399, 21517,
          21050, 20132, 25563, 12434, 12373, 12379, 12390, 12356, 12383, 12384, 12365, 12289,
          12354, 12426, 12364, 12392, 12358, 12372, 12374, 12356, 12414, 12375, 12383, 12290,
          10, 12362, 35441, 12375, 12391, 12365, 12390, 32, 12392, 12390, 12418, 23305, 12375,
          12363, 12387, 12383, 12391, 12377, 12290, 10, 10, 12414, 12383, 12362, 20250, 12356,
          12391, 12365, 12427, 12371, 12392, 12434, 27005, 12375, 12415, 12395, 12375, 12390,
          12362, 12426, 12414, 12377, 12290, 10, 10] @ s)
      | casual \<Rightarrow>
         (n @ [12373, 12435, 12289, 12362, 30130, 12428, 27096, 12391, 12375, 12383],
          n @ [12373, 12435, 10, 10] @ s @ [12391, 12377, 12290, 10, 10, 20170, 26085, 12399,
          12354, 12426, 12364, 12392, 12358, 12372, 12374, 12356, 12414, 12375, 12383, 65281,
          10, 21517, 21050, 20132, 25563, 12391, 12365, 12390, 33391, 12363, 12387, 12383,
          12391, 12377, 12290, 10, 10, 12414, 12383, 27231, 20250, 12364, 12354, 12428, 12400,
          12362, 35441, 12375, 12414, 12375, 12423, 12358, 12290, 10, 10] @ s))"

text \<open>The English templates; \<open>c\<close> is \<open>cardData.company\<close>.\<close>

definition templates_en :: "jsstring \<Rightarrow> jsstring option \<Rightarrow> jsstring \<Rightarrow> tone
    \<Rightarrow> jsstring \<times> jsstring" where
  "templates_en n c s t =
     (case t of
        professional \<Rightarrow>
         (asc ''Nice meeting you, '' @ n,
          asc ''Dear '' @ n @ [44, 10, 10] @
          asc ''Thank you for taking the time to exchange business cards with me '' @
          asc ''today.'' @ [10, 10] @
          asc ''It was a pleasure meeting you and learning about your work at '' @
          or_opt c (asc ''your company'') @ [46, 10, 10] @
          asc ''I look forward to staying in touch and potentially collaborating in '' @
          asc ''the future.'' @ [10, 10] @ asc ''Best regards,'' @ [10] @ s)
      | friendly \<Rightarrow>
         (asc ''Great meeting you today, '' @ n,
          asc ''Hi '' @ n @ [44, 10, 10] @
          asc ''It was great meeting you today and exchanging business cards!'' @ [10, 10] @
          asc ''I really enjoyed our conversation about '' @ or_opt c (asc ''your work'') @
          [46, 10, 10] @ asc ''Hope to connect again soon!'' @ [10, 10] @ asc ''Best,'' @
          [10] @ s)
      | casual \<Rightarrow>
         (asc ''Nice meeting you, '' @ n,
          asc ''Hi '' @ n @ [44, 10, 10] @
          asc ''Thanks for the business card exchange today!'' @ [10, 10] @
          asc ''Was nice chatting with you.'' @ [10, 10] @ asc ''Let'' @ [39] @
          asc ''s keep in touch!'' @ [10, 10] @ s))"

text \<open>
  \<open>generateTemplateEmail\<close> destructures \<open>tone\<close> without a default and \<open>language\<close>
  with the default \<open>ja\<close>.
\<close>

definition generateTemplateEmail :: "GenerateEmailOptions \<Rightarrow> Partial_EmailContent" where
  "generateTemplateEmail options =
     (let cd = ge_cardData options; s = ge_senderName options; tone = ge_tone options;
          language = (case ge_language options of None \<Rightarrow> ja | Some l \<Rightarrow> l);
          n = or_opt (bc_name cd) [];
          templates = (if language = ja then templates_ja n s
                       else templates_en n (bc_company cd) s)
      in (case tone of
            None \<Rightarrow>
              \<lparr>pe_subject = None, pe_body = None, pe_tone = None, pe_language = Some language\<rparr>
          | Some t \<Rightarrow>
              \<lparr>pe_subject = Some (fst (templates t)), pe_body = Some (snd (templates t)),
               pe_tone = tone, pe_language = Some language\<rparr>))"

definition parse_tone :: "json \<Rightarrow> tone option" where
  "parse_tone j =
     (if j = JStr (asc ''professional'') then Some professional
      else if j = JStr (asc ''friendly'') then Some friendly
      else if j = JStr (asc ''casual'') then Some casual
      else None)"

definition parse_language :: "json \<Rightarrow> language option" where
  "parse_language j =
     (if j = JStr (asc ''ja'') then Some ja
      else if j = JStr (asc ''en'') then Some en
      else None)"

text \<open>
  \<open>EmailContentSchema.parse\<close> on the object that \<open>generateEmail\<close> builds from the
  reply: subject and body are strings of at least one code unit, tone and language are
  the reply's when truthy (and then have to be members of the enumeration), else the
  options'.
\<close>

definition EmailContentSchema_parse :: "tone \<Rightarrow> language \<Rightarrow> (jsstring \<times> json) list
    \<Rightarrow> Partial_EmailContent option" where
  "EmailContentSchema_parse tone language kvs =
     (case (field kvs (asc ''subject''), field kvs (asc ''body'')) of
        (Some (JStr s), Some (JStr b)) \<Rightarrow>
          (let t = (if json_truthy (field kvs (asc ''tone''))
                    then parse_tone (the (field kvs (asc ''tone''))) else Some tone);
               l = (if json_truthy (field kvs (asc ''language''))
                    then parse_language (the (field kvs (asc ''language''))) else Some language)
           in if s \<noteq> [] \<and> b \<noteq> [] \<and> t \<noteq> None \<and> l \<noteq> None
              then Some \<lparr>pe_subject = Some s, pe_body = Some b, pe_tone = t, pe_language = l\<rparr>
              else None)
      | _ \<Rightarrow> None)"

text \<open>
  \<open>generateEmail\<close>. The reply is the outcome of the function call request
  (\<open>NoContent\<close>: no function call or no arguments). Every failure inside the
  \<open>try\<close> block, a reply that is not an object included, ends in the template, which
  is given the options as they came, not the defaulted tone.
\<close>

definition generateEmail :: "GenerateEmailOptions \<Rightarrow> completion \<Rightarrow> Partial_EmailContent" where
  "generateEmail options reply =
     (let tone = (case ge_tone options of None \<Rightarrow> professional | Some t \<Rightarrow> t);
          language = (case ge_language options of None \<Rightarrow> ja | Some l \<Rightarrow> l)
      in (case reply of
            Parsed (JObj kvs) \<Rightarrow>
              (case EmailContentSchema_parse tone language kvs of
                 Some validatedContent \<Rightarrow> validatedContent
               | None \<Rightarrow> generateTemplateEmail options)
          | _ \<Rightarrow> generateTemplateEmail options))"

text \<open>
  A chat completion stream: chunks, each with an optional delta content, until the
  stream is exhausted (\<open>Done\<close>) or the iteration throws (\<open>Failed\<close>). The request
  for the stream can itself be rejected.
\<close>

datatype chunk_stream = Done | Failed | Chunk "jsstring option" chunk_stream

datatype stream_call = StreamRejected | Stream chunk_stream

text \<open>
  The loop of \<open>generateEmailStream\<close>: the values yielded, and the value returned when
  the stream ends (\<open>None\<close> when the iteration throws).
\<close>

fun email_stream_loop :: "tone \<Rightarrow> language \<Rightarrow> jsstring \<Rightarrow> jsstring \<Rightarrow> bool \<Rightarrow> chunk_stream
    \<Rightarrow> Partial_EmailContent list \<times> Partial_EmailContent option" where
  "email_stream_loop t l sub bod isBodySection Done =
     ([], Some \<lparr>pe_subject = Some (trim sub), pe_body = Some (trim bod),
                pe_tone = Some t, pe_language = Some l\<rparr>)"
| "email_stream_loop t l sub bod isBodySection Failed = ([], None)"
| "email_stream_loop t l sub bod isBodySection (Chunk c rest) =
     (let content = or_opt c [];
          isBody' = (if js_includes content [20214, 21517, 58] \<or> js_includes content (asc ''Subject:'')
                     then False
                     else if js_includes content [26412, 25991, 58] \<or> js_includes content (asc ''Body:'')
                     then True else isBodySection);
          appending = (\<not> (js_includes content [20214, 21517, 58] \<or> js_includes content (asc ''Subject:''))
                     \<and> \<not> (js_includes content [26412, 25991, 58] \<or> js_includes content (asc ''Body:''))
                     \<and> trim content \<noteq> []);
          sub' = (if appending \<and> \<not> isBodySection then sub @ content else sub);
          bod' = (if appending \<and> isBodySection then bod @ content else bod);
          r = email_stream_loop t l sub' bod' isBody' rest
      in (\<lparr>pe_subject = Some (trim sub'), pe_body = Some (trim bod'),
           pe_tone = Some t, pe_language = Some l\<rparr> # fst r, snd r))"

text \<open>
  \<open>generateEmailStream\<close>: the yielded partial contents and the value the generator
  returns. A rejected request and a failing iteration both land in the \<open>catch\<close>
  block, which returns the template.
\<close>

definition generateEmailStream :: "GenerateEmailOptions \<Rightarrow> stream_call
    \<Rightarrow> Partial_EmailContent list \<times> Partial_EmailContent" where
  "generateEmailStream options call =
     (let tone = (case ge_tone options of None \<Rightarrow> professional | Some t \<Rightarrow> t);
          language = (case ge_language options of None \<Rightarrow> ja | Some l \<Rightarrow> l)
      in (case call of
            StreamRejected \<Rightarrow> ([], generateTemplateEmail options)
          | Stream s \<Rightarrow>
              (let r = email_stream_loop tone language [] [] False s
               in (fst r, (case snd r of Some final \<Rightarrow> final
                                       | None \<Rightarrow> generateTemplateEmail options)))))"

section \<open>apps/web/src/helpers/generateMail.ts\<close>

text \<open>The module is the first one of \<open>src/unnamed/part_004\<close>.\<close>

record ParsedCardData =
  pc_name :: jsstring
  pc_company :: jsstring
  pc_role :: jsstring
  pc_email :: jsstring
  pc_phone :: jsstring
  pc_confidence :: jsnum

record EmailContent =
  ec_subject :: jsstring
  ec_body :: jsstring
  ec_tone :: tone
  ec_language :: language

record GenerateMailOptions =
  gm_tone :: "tone option"
  gm_language :: "language option"
  gm_customMessage :: "jsstring option"
  gm_senderName :: "jsstring option"
  gm_senderCompany :: "jsstring option"

record Template =
  tp_subject :: jsstring
  tp_greeting :: jsstring
  tp_closing :: jsstring

fun EMAIL_TEMPLATES :: "tone \<Rightarrow> language \<Rightarrow> Template" where
  "EMAIL_TEMPLATES professional ja =
     \<lparr>tp_subject = asc ''{name}'' @ [27096, 12289, 12362, 19990, 35441, 12395, 12394, 12387, 12390,
        12362, 12426, 12414, 12377],
      tp_greeting = asc ''{name}'' @ [27096, 10, 10, 12362, 19990, 35441, 12395, 12394, 12387, 12390,
        12362, 12426, 12414, 12377, 12290],
      tp_closing = [20170, 24460, 12392, 12418, 12393, 12358, 12382, 12424, 12429, 12375, 12367, 12362,
        39000, 12356, 12356, 12383, 12375, 12414, 12377, 12290]\<rparr>"
| "EMAIL_TEMPLATES professional en =
     \<lparr>tp_subject = asc ''Nice meeting you, {name}'',
      tp_greeting = asc ''Dear {name},'' @ [10, 10] @ asc ''It was a pleasure meeting you.'',
      tp_closing = asc ''Looking forward to staying in touch.''\<rparr>"
| "EMAIL_TEMPLATES friendly ja =
     \<lparr>tp_subject = asc ''{name}'' @ [12373, 12435, 12289, 12362, 20250, 12356, 12391, 12365, 12390,
        23305, 12375, 12363, 12387, 12383, 12391, 12377],
      tp_greeting = asc ''{name}'' @ [12373, 12435, 10, 10, 12362, 20250, 12356, 12391, 12365, 12390,
        23305, 12375, 12363, 12387, 12383, 12391, 12377, 65281],
      tp_closing = [12414, 12383, 12362, 35441, 12375, 12391, 12365, 12427, 12371, 12392, 12434, 27005,
        12375, 12415, 12395, 12375, 12390, 12356, 12414, 12377, 12290]\<rparr>"
| "EMAIL_TEMPLATES friendly en =
     \<lparr>tp_subject = asc ''Great meeting you, {name}!'',
      tp_greeting = asc ''Hi {name},'' @ [10, 10] @ asc ''It was great meeting you!'',
      tp_closing = asc ''Hope we can chat again soon.''\<rparr>"
| "EMAIL_TEMPLATES casual ja =
     \<lparr>tp_subject = asc ''{name}'' @ [12373, 12435, 12289, 12362, 30130, 12428, 12373, 12414, 12391,
        12375, 12383],
      tp_greeting = asc ''{name}'' @ [12373, 12435, 10, 10, 12362, 30130, 12428, 12373, 12414, 12391,
        12375, 12383, 65281],
      tp_closing = [12414, 12383, 12362, 20250, 12356, 12375, 12414, 12375, 12423, 12358, 65281]\<rparr>"
| "EMAIL_TEMPLATES casual en =
     \<lparr>tp_subject = asc ''Hey {name}, nice meeting you!'',
      tp_greeting = asc ''Hey {name},'' @ [10, 10] @ asc ''Nice meeting you!'',
      tp_closing = asc ''Let'' @ [39] @ asc ''s keep in touch!''\<rparr>"

text \<open>\<open>generateWithTemplate\<close>, the template fallback of the web helper.\<close>

definition generateWithTemplate :: "ParsedCardData \<Rightarrow> GenerateMailOptions \<Rightarrow> EmailContent" where
  "generateWithTemplate cardData options =
     (let tone = (case gm_tone options of None \<Rightarrow> professional | Some t \<Rightarrow> t);
          language = (case gm_language options of None \<Rightarrow> ja | Some l \<Rightarrow> l);
          template = EMAIL_TEMPLATES tone language;
          subject = replace (tp_subject template) (asc ''{name}'') (pc_name cardData);
          body0 = replace (tp_greeting template) (asc ''{name}'') (pc_name cardData);
          body1 = (if pc_company cardData \<noteq> [] then
                     body0 @ (if language = ja
                       then [10] @ pc_company cardData @ [12391, 12398, 12362, 20181, 20107, 12289, 12362, 30130, 12428,
                          12373, 12414, 12391, 12377, 12290]
                       else [10] @ asc ''I hope things are going well at '' @
                            pc_company cardData @ [46])
                   else body0);
          body2 = (if truthy (gm_customMessage options)
                   then body1 @ [10, 10] @ the (gm_customMessage options) else body1);
          body3 = body2 @ [10, 10] @ tp_closing template;
          body4 = (if truthy (gm_senderName options) then
                     body3 @ (if language = ja
                       then [10, 10] @ the (gm_senderName options)
                       else [10, 10] @ asc ''Best regards,'' @ [10] @ the (gm_senderName options))
                   else body3)
      in \<lparr>ec_subject = subject, ec_body = body4, ec_tone = tone, ec_language = language\<rparr>)"

text \<open>
  The loop of \<open>generateMailStream\<close>: a chunk with a truthy content extends the body
  and yields; the result is the yielded values and the body at the end of the stream
  (\<open>None\<close> when the iteration throws).
\<close>

fun mail_stream_loop :: "jsstring \<Rightarrow> tone \<Rightarrow> language \<Rightarrow> jsstring \<Rightarrow> chunk_stream
    \<Rightarrow> Partial_EmailContent list \<times> jsstring option" where
  "mail_stream_loop subj t l bod Done = ([], Some bod)"
| "mail_stream_loop subj t l bod Failed = ([], None)"
| "mail_stream_loop subj t l bod (Chunk c rest) =
     (if truthy c then
        (let bod' = bod @ the c; r = mail_stream_loop subj t l bod' rest
         in (\<lparr>pe_subject = Some subj, pe_body = Some bod', pe_tone = Some t, pe_language = Some l\<rparr>
               # fst r, snd r))
      else mail_stream_loop subj t l bod rest)"

definition to_partial :: "EmailContent \<Rightarrow> Partial_EmailContent" where
  "to_partial e = \<lparr>pe_subject = Some (ec_subject e), pe_body = Some (ec_body e),
     pe_tone = Some (ec_tone e), pe_language = Some (ec_language e)\<rparr>"

text \<open>
  \<open>generateMailStream\<close>: the subject is yielded first; then the stream is consumed.
  The \<open>catch\<close> block yields the template content and returns it.
\<close>

definition generateMailStream :: "ParsedCardData \<Rightarrow> GenerateMailOptions \<Rightarrow> stream_call
    \<Rightarrow> Partial_EmailContent list \<times> EmailContent" where
  "generateMailStream cardData options call =
     (let tone = (case gm_tone options of None \<Rightarrow> professional | Some t \<Rightarrow> t);
          language = (case gm_language options of None \<Rightarrow> ja | Some l \<Rightarrow> l);
          template = EMAIL_TEMPLATES tone language;
          subject = replace (tp_subject template) (asc ''{name}'') (pc_name cardData);
          first = \<lparr>pe_subject = Some subject, pe_body = None,
                   pe_tone = Some tone, pe_language = Some language\<rparr>;
          fallback = generateWithTemplate cardData options
      in (case call of
            StreamRejected \<Rightarrow> ([first, to_partial fallback], fallback)
          | Stream s \<Rightarrow>
              (let r = mail_stream_loop subject tone language [] s
               in (case snd r of
                     Some body \<Rightarrow>
                       (first # fst r,
                        \<lparr>ec_subject = subject, ec_body = body,
                         ec_tone = tone, ec_language = language\<rparr>)
                   | None \<Rightarrow> (first # fst r @ [to_partial fallback], fallback)))))"

section \<open>Regular expressions\<close>

text \<open>
  The patterns of the sources use character classes, sequence, alternation, greedy
  bounded repetition and the two anchors; there is no capture that is read and no
  lookaround. A class is a union of inclusive ranges of code units.
\<close>

datatype rx =
    Cls "(nat \<times> nat) list"
  | NCls "(nat \<times> nat) list"
  | Seq rx rx
  | Alt rx rx
  | Rep nat "nat option" rx
  | Bol
  | Eol
  | Eps

text \<open>
  Under the flag \<open>i\<close> a code unit matches a class when some member of the class has
  the same canonical form. The classes that the sources use with this flag hold ASCII
  letters, digits, punctuation and white space, for which the canonical form is the
  ASCII upper case.
\<close>

definition cls_match :: "bool \<Rightarrow> (nat \<times> nat) list \<Rightarrow> nat \<Rightarrow> bool" where
  "cls_match ic rs c =
     (in_ranges rs c \<or>
      (ic \<and> ((97 \<le> c \<and> c \<le> 122 \<and> in_ranges rs (c - 32)) \<or>
              (65 \<le> c \<and> c \<le> 90 \<and> in_ranges rs (c + 32)))))"

text \<open>
  The matcher returns the ends of all matches that start at the head of the input (as
  the rest of the input after the match), in the order in which backtracking tries them;
  the first one is the match. \<open>rep\<close> is the greedy quantifier \<open>{lo,hi}\<close>: one more
  iteration is tried before stopping, and once the minimum is reached an iteration that
  consumes nothing is rejected.
\<close>

function rep :: "(jsstring \<Rightarrow> jsstring list) \<Rightarrow> nat \<Rightarrow> nat option \<Rightarrow> jsstring \<Rightarrow> jsstring list" where
  "rep f lo hi s =
     (if hi = Some 0 then [s]
      else
        (let more = concat (map (rep f (lo - 1) (map_option (\<lambda>h. h - 1) hi))
                      (filter (\<lambda>s'. 0 < lo \<or> length s' < length s) (f s)))
         in if lo = 0 then more @ [s] else more))"
  by pat_completeness auto
termination
  by (relation "measures [\<lambda>(f, lo, hi, s). lo, \<lambda>(f, lo, hi, s). length s]") auto

text \<open>\<open>n\<close> is the length of the whole input, by which \<open>^\<close> recognises its start.\<close>

primrec ms :: "bool \<Rightarrow> nat \<Rightarrow> rx \<Rightarrow> jsstring \<Rightarrow> jsstring list" where
  "ms ic n (Cls rs) s = (case s of [] \<Rightarrow> [] | c # cs \<Rightarrow> if cls_match ic rs c then [cs] else [])"
| "ms ic n (NCls rs) s = (case s of [] \<Rightarrow> [] | c # cs \<Rightarrow> if cls_match ic rs c then [] else [cs])"
| "ms ic n (Seq a b) s = concat (map (ms ic n b) (ms ic n a s))"
| "ms ic n (Alt a b) s = ms ic n a s @ ms ic n b s"
| "ms ic n (Rep lo hi a) s = rep (ms ic n a) lo hi s"
| "ms ic n Bol s = (if length s = n then [s] else [])"
| "ms ic n Eol s = (if s = [] then [s] else [])"
| "ms ic n Eps s = [s]"

text \<open>The leftmost match in \<open>s\<close>: the matched text and what follows it.\<close>

fun search :: "bool \<Rightarrow> nat \<Rightarrow> rx \<Rightarrow> jsstring \<Rightarrow> (jsstring \<times> jsstring) option" where
  "search ic n r s =
     (case ms ic n r s of
        rest # _ \<Rightarrow> Some (take (length s - length rest) s, rest)
      | [] \<Rightarrow> (case s of [] \<Rightarrow> None | c # cs \<Rightarrow> search ic n r cs))"

text \<open>
  \<open>s.match(re)\<close>, read at index 0 (the first match, with or without the flag
  \<open>g\<close>), and \<open>re.test(s)\<close> for a pattern without the flag \<open>g\<close>.
\<close>

definition js_match :: "bool \<Rightarrow> rx \<Rightarrow> jsstring \<Rightarrow> jsstring option" where
  "js_match ic r s = map_option fst (search ic (length s) r s)"

definition js_test :: "bool \<Rightarrow> rx \<Rightarrow> jsstring \<Rightarrow> bool" where
  "js_test ic r s = (js_match ic r s \<noteq> None)"

text \<open>
  \<open>re.test(s)\<close> for a pattern with the flag \<open>g\<close>: the search starts at
  \<open>lastIndex\<close>, which becomes the end of the match, or 0 when there is none.
\<close>

definition test_g :: "bool \<Rightarrow> rx \<Rightarrow> nat \<Rightarrow> jsstring \<Rightarrow> bool \<times> nat" where
  "test_g ic r lastIndex s =
     (if length s < lastIndex then (False, 0)
      else (case search ic (length s) r (drop lastIndex s) of
              None \<Rightarrow> (False, 0)
            | Some (m, rest) \<Rightarrow> (True, length s - length rest)))"

definition chr :: "nat \<Rightarrow> rx" where
  "chr c = Cls [(c, c)]"

definition lit :: "jsstring \<Rightarrow> rx" where
  "lit s = foldr (\<lambda>c r. Seq (chr c) r) s Eps"

definition seqs :: "rx list \<Rightarrow> rx" where
  "seqs rs = foldr Seq rs Eps"

fun alts :: "rx list \<Rightarrow> rx" where
  "alts [] = NCls [(0, 65535)]"
| "alts [r] = r"
| "alts (r # rs) = Alt r (alts rs)"

definition plus :: "rx \<Rightarrow> rx" where
  "plus r = Rep 1 None r"

definition star :: "rx \<Rightarrow> rx" where
  "star r = Rep 0 None r"

definition opt :: "rx \<Rightarrow> rx" where
  "opt r = Rep 0 (Some 1) r"

text \<open>The classes \<open>\d\<close> and \<open>\w\<close>; \<open>\s\<close> is \<open>space\<close>.\<close>

definition digit :: "(nat \<times> nat) list" where
  "digit = [(48, 57)]"

definition word :: "(nat \<times> nat) list" where
  "word = [(48, 57), (65, 90), (95, 95), (97, 122)]"

section \<open>apps/web/src/helpers/parseCard.ts\<close>

datatype language_hint = hint_ja | hint_en | auto

record ParseCardOptions =
  fallbackToRegex :: "bool option"
  po_language :: "language_hint option"

text \<open>\<open>PATTERNS\<close>; all of them carry the flag \<open>g\<close>, the English ones also \<open>i\<close>.\<close>

definition PATTERNS_email :: rx where
  "PATTERNS_email =
     seqs [plus (Cls [(97, 122), (65, 90), (48, 57), (46, 46), (95, 95), (37, 37), (43, 43), (45, 45)]),
           chr 64,
           plus (Cls [(97, 122), (65, 90), (48, 57), (46, 46), (45, 45)]),
           chr 46,
           Rep 2 None (Cls [(97, 122), (65, 90)])]"

definition PATTERNS_phone_jp :: rx where
  "PATTERNS_phone_jp =
     alts [seqs [chr 48, Rep 1 (Some 4) (Cls digit), chr 45, Rep 1 (Some 4) (Cls digit), chr 45,
                 Rep 4 (Some 4) (Cls digit)],
           seqs [chr 48, Rep 9 (Some 10) (Cls digit)],
           seqs [chr 43, chr 56, chr 49, opt (chr 45), Rep 1 (Some 4) (Cls digit), opt (chr 45),
                 Rep 1 (Some 4) (Cls digit), opt (chr 45), Rep 4 (Some 4) (Cls digit)]]"

definition PATTERNS_phone_intl :: rx where
  "PATTERNS_phone_intl = seqs [opt (chr 43), Cls [(49, 57)], Rep 1 (Some 14) (Cls digit)]"

definition PATTERNS_company_jp :: rx where
  "PATTERNS_company_jp =
     Seq (alts [lit [26666, 24335, 20250, 31038], lit [26377, 38480, 20250, 31038],
                lit [21512, 21516, 20250, 31038], lit [19968, 33324, 31038, 22243, 27861, 20154],
                lit [20844, 30410, 36001, 22243, 27861, 20154], lit [23398, 26657, 27861, 20154]])
         (plus (NCls [(10, 10)]))"

definition PATTERNS_company_en :: rx where
  "PATTERNS_company_en =
     Seq (alts [lit (asc ''Inc.''), lit (asc ''Corp.''), lit (asc ''LLC''), lit (asc ''Ltd.''),
                lit (asc ''Co.''), lit (asc ''Company'')])
         (star (NCls [(10, 10)]))"

definition PATTERNS_role_jp :: rx where
  "PATTERNS_role_jp =
     Seq (alts [lit [20195, 34920, 21462, 32224, 24441], lit [21462, 32224, 24441],
                lit [37096, 38263], lit [35506, 38263], lit [20027, 20219],
                lit [12510, 12493, 12540, 12472, 12515, 12540],
                lit [12487, 12451, 12524, 12463, 12479, 12540],
                lit [12456, 12531, 12472, 12491, 12450], lit [21942, 26989]])
         (star (NCls [(10, 10)]))"

definition PATTERNS_role_en :: rx where
  "PATTERNS_role_en =
     Seq (alts [lit (asc ''CEO''), lit (asc ''CTO''), lit (asc ''CFO''), lit (asc ''President''),
                lit (asc ''Director''), lit (asc ''Manager''), lit (asc ''Engineer''),
                lit (asc ''Sales'')])
         (star (NCls [(10, 10)]))"

text \<open>What \<open>extractWithRegex\<close> returns: every property may be absent.\<close>

record RegexResult =
  rr_name :: "jsstring option"
  rr_company :: "jsstring option"
  rr_role :: "jsstring option"
  rr_email :: "jsstring option"
  rr_phone :: "jsstring option"

text \<open>
  The loop that guesses the name. The phone and the company pattern are global, so each
  \<open>test\<close> reads and writes the pattern's \<open>lastIndex\<close> (\<open>pl\<close>, \<open>cl\<close>); the
  conjunction stops at its first false operand.
\<close>

fun name_loop :: "bool \<Rightarrow> rx \<Rightarrow> rx \<Rightarrow> nat \<Rightarrow> nat \<Rightarrow> jsstring list \<Rightarrow> jsstring option" where
  "name_loop ic phonePattern companyPattern pl cl [] = None"
| "name_loop ic phonePattern companyPattern pl cl (line # rest) =
     (if js_includes line [64] then name_loop ic phonePattern companyPattern pl cl rest
      else
        (let pt = test_g False phonePattern pl line in
         if fst pt then name_loop ic phonePattern companyPattern (snd pt) cl rest
         else
           (let ct = test_g ic companyPattern cl line in
            if fst ct then name_loop ic phonePattern companyPattern (snd pt) (snd ct) rest
            else if 1 < length line \<and> length line < 50 then Some (trim line)
            else name_loop ic phonePattern companyPattern (snd pt) (snd ct) rest)))"

definition extractWithRegex :: "jsstring \<Rightarrow> language \<Rightarrow> RegexResult" where
  "extractWithRegex text lang =
     (let lines = nonblank_lines text;
          phonePattern = (if lang = ja then PATTERNS_phone_jp else PATTERNS_phone_intl);
          companyPattern = (if lang = ja then PATTERNS_company_jp else PATTERNS_company_en);
          rolePattern = (if lang = ja then PATTERNS_role_jp else PATTERNS_role_en);
          ic = (lang \<noteq> ja)
      in \<lparr>rr_name = name_loop ic phonePattern companyPattern 0 0 lines,
          rr_company = map_option trim (js_match ic companyPattern text),
          rr_role = map_option trim (js_match ic rolePattern text),
          rr_email = js_match False PATTERNS_email text,
          rr_phone = js_match False phonePattern text\<rparr>)"

text \<open>
  The arguments of the function call after \<open>JSON.parse\<close>. The source casts them
  without a check. The string properties are taken at the type of the cast; the
  confidence is the parsed value as it is, whatever its type, since the clamp coerces
  it. A property may be missing.
\<close>

record GPTArguments =
  ga_name :: "jsstring option"
  ga_company :: "jsstring option"
  ga_role :: "jsstring option"
  ga_email :: "jsstring option"
  ga_phone :: "jsstring option"
  ga_confidence :: "json option"

text \<open>
  The outcome of the extraction request: the call or the parsing of its arguments
  throws (or the arguments are \<open>null\<close>, whose properties cannot be read), there is no
  function call, or there are arguments.
\<close>

datatype gpt_reply = GptThrows | GptNoArguments | GptParsed GPTArguments

datatype error = EmptyText | GptError | NoResults

text \<open>
  \<open>extractWithGPT\<close>. The confidence is
  \<open>Math.max(0, Math.min(1, parsed.confidence || 0.5))\<close>; an exception of the coercion is
  caught and thrown again, like every other inside the \<open>try\<close> block.
\<close>

definition extractWithGPT :: "(jsstring \<Rightarrow> gpt_reply) \<Rightarrow> jsstring \<Rightarrow> error + ParsedCardData" where
  "extractWithGPT gpt text =
     (case gpt text of
        GptThrows \<Rightarrow> Inl GptError
      | GptNoArguments \<Rightarrow> Inl NoResults
      | GptParsed parsed \<Rightarrow>
          (case ToNumber (or_json (ga_confidence parsed) (JNum 0.5)) of
             None \<Rightarrow> Inl GptError
           | Some confidence \<Rightarrow>
               Inr \<lparr>pc_name = or_opt (ga_name parsed) [],
                    pc_company = or_opt (ga_company parsed) [],
                    pc_role = or_opt (ga_role parsed) [],
                    pc_email = or_opt (ga_email parsed) [],
                    pc_phone = or_opt (ga_phone parsed) [],
                    pc_confidence = Math_max (Fin 0) (Math_min (Fin 1) confidence)\<rparr>))"

text \<open>The class of the language detection holds ten literal characters.\<close>

definition japanese_chars :: rx where
  "japanese_chars =
     Cls (map (\<lambda>c. (c, c)) [12402, 12425, 12364, 12394, 12459, 12479, 12459, 12490, 28450, 23383])"

text \<open>
  The language that \<open>parseCard\<close> hands to the pattern extractor: detected from the
  text when the option is \<open>auto\<close>, the option itself otherwise.
\<close>

definition detectedLanguage :: "jsstring \<Rightarrow> ParseCardOptions \<Rightarrow> language" where
  "detectedLanguage rawText options =
     (let lang = (case po_language options of None \<Rightarrow> auto | Some l \<Rightarrow> l)
      in if lang = auto then (if js_test False japanese_chars rawText then ja else en)
         else if lang = hint_ja then ja else en)"

text \<open>
  \<open>parseCard\<close>. The client is a function from the text to the outcome of the
  extraction request.
\<close>

definition parseCard :: "(jsstring \<Rightarrow> gpt_reply) \<Rightarrow> jsstring \<Rightarrow> ParseCardOptions
    \<Rightarrow> error + ParsedCardData" where
  "parseCard gpt rawText options =
     (let fallback = (case fallbackToRegex options of None \<Rightarrow> True | Some b \<Rightarrow> b)
      in if trim rawText = [] then Inl EmptyText
         else
           (case extractWithGPT gpt rawText of
              Inr gptResult \<Rightarrow>
                (if js_less (pc_confidence gptResult) (Fin 0.7) \<and> fallback then
                   (let regexResult = extractWithRegex rawText (detectedLanguage rawText options)
                    in Inr \<lparr>pc_name = or_str (pc_name gptResult) (or_opt (rr_name regexResult) []),
                            pc_company = or_str (pc_company gptResult) (or_opt (rr_company regexResult) []),
                            pc_role = or_str (pc_role gptResult) (or_opt (rr_role regexResult) []),
                            pc_email = or_str (pc_email gptResult) (or_opt (rr_email regexResult) []),
                            pc_phone = or_str (pc_phone gptResult) (or_opt (rr_phone regexResult) []),
                            pc_confidence = Math_max (pc_confidence gptResult) (Fin 0.6)\<rparr>)
                 else Inr gptResult)
            | Inl e \<Rightarrow>
                (if \<not> fallback then Inl e
                 else
                   (let regexResult = extractWithRegex rawText (detectedLanguage rawText options)
                    in Inr \<lparr>pc_name = or_opt (rr_name regexResult) [],
                            pc_company = or_opt (rr_company regexResult) [],
                            pc_role = or_opt (rr_role regexResult) [],
                            pc_email = or_opt (rr_email regexResult) [],
                            pc_phone = or_opt (rr_phone regexResult) [],
                            pc_confidence = Fin 0.4\<rparr>))))"

section \<open>server/src/helpers/processOCR.ts\<close>

record OCRResult =
  oc_name :: "jsstring option"
  oc_company :: "jsstring option"
  oc_role :: "jsstring option"
  oc_email :: "jsstring option"
  oc_phone :: "jsstring option"
  oc_address :: "jsstring option"
  oc_website :: "jsstring option"
  oc_confidence :: jsnum

definition emailRegex :: rx where
  "emailRegex = PATTERNS_email"

definition phoneRegex :: rx where
  "phoneRegex =
     seqs [Alt (lit [43, 56, 49]) (chr 48), Rep 1 (Some 4) (Cls digit), opt (chr 45),
           Rep 1 (Some 4) (Cls digit), opt (chr 45), Rep 4 (Some 4) (Cls digit)]"

definition urlRegex :: rx where
  "urlRegex = seqs [lit (asc ''http''), opt (chr 115), lit [58, 47, 47], plus (NCls space)]"

text \<open>\<open>lines[i] || ''\<close>\<close>

definition line_or_empty :: "jsstring list \<Rightarrow> nat \<Rightarrow> jsstring" where
  "line_or_empty ls i = (if i < length ls then ls ! i else [])"

text \<open>\<open>x || undefined\<close> on a string.\<close>

definition or_undefined :: "jsstring \<Rightarrow> jsstring option" where
  "or_undefined s = (if s \<noteq> [] then Some s else None)"

text \<open>The server's \<open>extractWithRegex\<close>, the fallback of \<open>parseCardDataWithGPT\<close>.\<close>

definition extractWithRegex_server :: "jsstring \<Rightarrow> OCRResult" where
  "extractWithRegex_server text =
     (let email = or_opt (js_match False emailRegex text) [];
          phone = or_opt (js_match False phoneRegex text) [];
          website = or_opt (js_match False urlRegex text) [];
          lines = nonblank_lines text
      in \<lparr>oc_name = Some (line_or_empty lines 0),
          oc_company = Some (line_or_empty lines 1),
          oc_role = Some [],
          oc_email = or_undefined email,
          oc_phone = Some phone,
          oc_address = Some [],
          oc_website = or_undefined website,
          oc_confidence = Fin 0.4\<rparr>)"

text \<open>
  A property of the object handed to \<open>OCRResultSchema.parse\<close>. \<open>x || ''\<close> is the
  value when it is truthy and the empty string otherwise; the schema then wants a string.
  \<open>x || undefined\<close> leaves a falsy value out.
\<close>

definition string_or_empty :: "json option \<Rightarrow> jsstring option option" where
  "string_or_empty v =
     (if json_truthy v then (case v of Some (JStr s) \<Rightarrow> Some (Some s) | _ \<Rightarrow> None)
      else Some (Some []))"

definition string_or_undefined :: "(jsstring \<Rightarrow> bool) \<Rightarrow> json option \<Rightarrow> jsstring option option" where
  "string_or_undefined valid v =
     (if json_truthy v
      then (case v of Some (JStr s) \<Rightarrow> if valid s then Some (Some s) else None | _ \<Rightarrow> None)
      else Some None)"

text \<open>\<open>confidence || 0.5\<close> under \<open>z.number().min(0).max(1)\<close>\<close>

definition confidence_or_half :: "json option \<Rightarrow> jsnum option" where
  "confidence_or_half v =
     (if json_truthy v
      then (case v of Some (JNum x) \<Rightarrow> if 0 \<le> x \<and> x \<le> 1 then Some (Fin x) else None
                    | _ \<Rightarrow> None)
      else Some (Fin 0.5))"

text \<open>
  \<open>OCRResultSchema.parse\<close> on the sanitised reply: every property has to pass. The
  format checks of the schema library for \<open>email()\<close> and \<open>url()\<close> are parameters.
\<close>

definition OCRResultSchema_parse :: "(jsstring \<Rightarrow> bool) \<Rightarrow> (jsstring \<Rightarrow> bool)
    \<Rightarrow> (jsstring \<Rightarrow> json option) \<Rightarrow> OCRResult option" where
  "OCRResultSchema_parse valid_email valid_url get =
     Option.bind (string_or_empty (get (asc ''name''))) (\<lambda>n.
     Option.bind (string_or_empty (get (asc ''company''))) (\<lambda>c.
     Option.bind (string_or_empty (get (asc ''role''))) (\<lambda>r.
     Option.bind (string_or_undefined valid_email (get (asc ''email''))) (\<lambda>e.
     Option.bind (string_or_empty (get (asc ''phone''))) (\<lambda>p.
     Option.bind (string_or_empty (get (asc ''address''))) (\<lambda>a.
     Option.bind (string_or_undefined valid_url (get (asc ''website''))) (\<lambda>w.
     Option.bind (confidence_or_half (get (asc ''confidence''))) (\<lambda>k.
       Some \<lparr>oc_name = n, oc_company = c, oc_role = r, oc_email = e, oc_phone = p,
             oc_address = a, oc_website = w, oc_confidence = k\<rparr>))))))))"

text \<open>
  \<open>parseCardDataWithGPT\<close>: whatever goes wrong inside the \<open>try\<close> block (the call,
  a missing function call, the parsing, a reply that is \<open>null\<close>, the schema) ends in
  the regular expression fallback.
\<close>

definition parseCardDataWithGPT :: "(jsstring \<Rightarrow> bool) \<Rightarrow> (jsstring \<Rightarrow> bool)
    \<Rightarrow> (jsstring \<Rightarrow> completion) \<Rightarrow> jsstring \<Rightarrow> OCRResult" where
  "parseCardDataWithGPT valid_email valid_url openai rawText =
     (case openai rawText of
        Parsed JNull \<Rightarrow> extractWithRegex_server rawText
      | Parsed extractedData \<Rightarrow>
          (case OCRResultSchema_parse valid_email valid_url
                  (\<lambda>k. case extractedData of JObj kvs \<Rightarrow> field kvs k | _ \<Rightarrow> None) of
             Some validatedData \<Rightarrow> validatedData
           | None \<Rightarrow> extractWithRegex_server rawText)
      | _ \<Rightarrow> extractWithRegex_server rawText)"

section \<open>worker/src/processors/ocrAndSend.ts\<close>

text \<open>
  The worker's \<open>OCRResult\<close>. Its confidence is a sum of the literals 40, 30, 20 and
  10, a finite number.
\<close>

record CardInfo =
  ci_name :: jsstring
  ci_email :: jsstring
  ci_company :: jsstring
  ci_role :: jsstring
  ci_confidence :: real

definition emailPattern :: rx where
  "emailPattern =
     seqs [plus (Cls (word @ [(46, 46), (45, 45)])), chr 64,
           plus (Cls (word @ [(46, 46), (45, 45)])), chr 46, plus (Cls word)]"

definition phonePattern :: rx where
  "phonePattern = Rep 10 None (Cls (digit @ [(45, 45), (40, 40), (41, 41), (43, 43)] @ space))"

text \<open>\<open>companyPatterns\<close>, each with its flag \<open>i\<close>.\<close>

definition companyPatterns :: "(bool \<times> rx) list" where
  "companyPatterns =
     [(False, Seq (lit [26666, 24335, 20250, 31038]) (plus (Cls (space @ word)))),
      (False, Seq (plus (Cls word)) (lit [26666, 24335, 20250, 31038])),
      (True, seqs [plus (Cls word), star (Cls space), lit (asc ''Co.''), opt (chr 44),
                   star (Cls space), lit (asc ''Ltd''), opt (chr 46)]),
      (True, seqs [plus (Cls word), star (Cls space), lit (asc ''Inc''), opt (chr 46)]),
      (True, seqs [plus (Cls word), star (Cls space), lit (asc ''Corporation'')])]"

text \<open>The first pattern that matches gives the company, trimmed.\<close>

fun first_company :: "(bool \<times> rx) list \<Rightarrow> jsstring \<Rightarrow> jsstring" where
  "first_company [] text = []"
| "first_company (p # ps) text =
     (case js_match (fst p) (snd p) text of
        Some m \<Rightarrow> trim m
      | None \<Rightarrow> first_company ps text)"

text \<open>\<open>/[^\x00-\x7F]/\<close> and \<open>/^[A-Z][a-z]+\s+[A-Z][a-z]+$/\<close>\<close>

definition non_ascii :: rx where
  "non_ascii = NCls [(0, 127)]"

definition two_capitalised_words :: rx where
  "two_capitalised_words =
     seqs [Bol, Cls [(65, 90)], plus (Cls [(97, 122)]), plus (Cls space),
           Cls [(65, 90)], plus (Cls [(97, 122)]), Eol]"

fun find_name :: "jsstring list \<Rightarrow> jsstring" where
  "find_name [] = []"
| "find_name (line # rest) =
     (if \<not> js_test False emailPattern line \<and> \<not> js_test False phonePattern line
         \<and> \<not> list_ex (\<lambda>p. js_test (fst p) (snd p) line) companyPatterns
         \<and> 2 < length line \<and> length line < 30
         \<and> (js_test False non_ascii line \<or> js_test False two_capitalised_words line)
      then trim line
      else find_name rest)"

text \<open>\<open>lines.findIndex(pred)\<close>, \<open>None\<close> for \<open>-1\<close>.\<close>

fun findIndex :: "('a \<Rightarrow> bool) \<Rightarrow> 'a list \<Rightarrow> nat option" where
  "findIndex P [] = None"
| "findIndex P (x # xs) = (if P x then Some 0 else map_option Suc (findIndex P xs))"

definition extractBusinessCardInfo :: "jsstring \<Rightarrow> CardInfo" where
  "extractBusinessCardInfo text =
     (let lines = nonblank_lines text;
          email = or_opt (js_match False emailPattern text) [];
          company = first_company companyPatterns text;
          name = find_name lines;
          role = (case findIndex (\<lambda>l. js_includes l name) lines of
                    None \<Rightarrow> []
                  | Some nameIndex \<Rightarrow>
                      (if nameIndex + 1 < length lines then
                         (let potentialRole = lines ! (nameIndex + 1)
                          in if length potentialRole < 20 \<and> \<not> js_test False emailPattern potentialRole
                             then trim potentialRole else [])
                       else []));
          confidence = (if email \<noteq> [] then 40 else 0) + (if name \<noteq> [] then 30 else 0)
                       + (if company \<noteq> [] then 20 else 0) + (if role \<noteq> [] then 10 else 0)
      in \<lparr>ci_name = or_str name (asc ''Unknown''),
          ci_email = or_str email (asc ''no-email@example.com''),
          ci_company = or_str company (asc ''Unknown Company''),
          ci_role = role,
          ci_confidence = confidence\<rparr>)"

text \<open>
  \<open>extractedData\<close> as \<open>saveCardData\<close> stores it: the confidence is divided by 100.
\<close>

definition saved_extractedData :: "CardInfo \<Rightarrow> ParsedCardData" where
  "saved_extractedData cardInfo =
     \<lparr>pc_name = ci_name cardInfo, pc_company = ci_company cardInfo,
      pc_role = or_str (ci_role cardInfo) [], pc_email = ci_email cardInfo, pc_phone = [],
      pc_confidence = Fin (ci_confidence cardInfo / 100)\<rparr>"

text \<open>
  The collaborators of \<open>processCardHandler\<close>, each either throwing (with a message)
  or returning: the text that \<open>performOCR\<close> recognises, the card id under which
  \<open>saveCardData\<close> stores the card, the message id that \<open>sendEmailViaAPI\<close> reports,
  and the flag of \<open>updateCardWithEmailInfo\<close>. \<open>preprocessImage\<close> catches its own
  failure and returns the original image.
\<close>

record collaborators =
  performOCR :: "jsstring + jsstring"
  saveCardData :: "jsstring + jsstring"
  sendEmailViaAPI :: "jsstring + jsstring"
  updateCardWithEmailInfo :: "jsstring + bool"

record handler_result =
  hr_success :: bool
  hr_cardInfo :: CardInfo
  hr_cardId :: jsstring
  hr_emailId :: jsstring

text \<open>
  \<open>processCardHandler\<close>: the values passed to \<open>job.updateProgress\<close>, in order, and
  the outcome; an exception is rethrown after the progress reported so far. The update
  of the progress itself is taken to succeed.
\<close>

definition processCardHandler :: "collaborators \<Rightarrow> nat list \<times> (jsstring + handler_result)" where
  "processCardHandler env =
     (case performOCR env of
        Inl e \<Rightarrow> ([10, 30], Inl e)
      | Inr text \<Rightarrow>
          (let cardInfo = extractBusinessCardInfo text in
           (case saveCardData env of
              Inl e \<Rightarrow> ([10, 30, 60, 70], Inl e)
            | Inr cardId \<Rightarrow>
                (case sendEmailViaAPI env of
                   Inl e \<Rightarrow> ([10, 30, 60, 70, 80], Inl e)
                 | Inr messageId \<Rightarrow>
                     (case updateCardWithEmailInfo env of
                        Inl e \<Rightarrow> ([10, 30, 60, 70, 80], Inl e)
                      | Inr ok \<Rightarrow>
                          ([10, 30, 60, 70, 80, 100],
                           Inr \<lparr>hr_success = True, hr_cardInfo = cardInfo, hr_cardId = cardId,
                                hr_emailId = messageId\<rparr>))))))"

section \<open>Properties and concrete inputs\<close>

text \<open>A stream fails when its iteration ends in an exception.\<close>

fun stream_fails :: "chunk_stream \<Rightarrow> bool" where
  "stream_fails Done = False"
| "stream_fails Failed = True"
| "stream_fails (Chunk c rest) = stream_fails rest"

text \<open>The guard of \<open>generateMail\<close>: both overrides are truthy.\<close>

definition overrides_used :: "TemplateOverrides option \<Rightarrow> bool" where
  "overrides_used overrides =
     (case overrides of None \<Rightarrow> False | Some ov \<Rightarrow> truthy (o_subject ov) \<and> truthy (o_body ov))"

text \<open>
  The confidence of a reply is numeric when there are no arguments, or the property is
  missing, or it is a number.
\<close>

definition numeric_confidence :: "gpt_reply \<Rightarrow> bool" where
  "numeric_confidence reply =
     (case reply of
        GptParsed parsed \<Rightarrow>
          (case ga_confidence parsed of None \<Rightarrow> True | Some (JNum x) \<Rightarrow> True | Some _ \<Rightarrow> False)
      | _ \<Rightarrow> True)"

text \<open>A number in the closed interval from 0 to 1.\<close>

definition in_unit :: "jsnum \<Rightarrow> bool" where
  "in_unit x = (case x of Fin r \<Rightarrow> 0 \<le> r \<and> r \<le> 1 | _ \<Rightarrow> False)"

text \<open>A client whose every call is rejected, a client with a fixed answer, a recipient.\<close>

definition rejecting :: "jsstring \<Rightarrow> completion" where
  "rejecting p = Rejected"

definition answering :: "'a \<Rightarrow> jsstring \<Rightarrow> 'a" where
  "answering r p = r"

definition recipient0 :: Recipient where
  "recipient0 = \<lparr>r_name = asc ''Taro'', r_email = asc ''taro@example.com'',
     r_company = asc ''Example Corp'', r_role = None\<rparr>"

text \<open>A card text, the arguments of an extraction with confidence \<open>c\<close> and its record.\<close>

definition text0 :: jsstring where
  "text0 = asc ''Taro Yamada'' @ [10] @ asc ''Example Corp.'' @ [10] @ asc ''taro@example.com''"

definition no_options :: ParseCardOptions where
  "no_options = \<lparr>fallbackToRegex = None, po_language = None\<rparr>"

definition arguments0 :: "real \<Rightarrow> GPTArguments" where
  "arguments0 c = \<lparr>ga_name = Some (asc ''Taro''), ga_company = Some [], ga_role = None,
     ga_email = Some (asc ''taro@example.com''), ga_phone = None, ga_confidence = Some (JNum c)\<rparr>"

text \<open>Arguments whose confidence is a word, and the record of their extraction.\<close>

definition arguments1 :: GPTArguments where
  "arguments1 = \<lparr>ga_name = Some (asc ''Taro''), ga_company = Some [], ga_role = None,
     ga_email = Some (asc ''taro@example.com''), ga_phone = None,
     ga_confidence = Some (JStr (asc ''high''))\<rparr>"

definition card1 :: ParsedCardData where
  "card1 = \<lparr>pc_name = asc ''Taro'', pc_company = [], pc_role = [],
     pc_email = asc ''taro@example.com'', pc_phone = [], pc_confidence = NaN\<rparr>"

definition card0 :: "real \<Rightarrow> ParsedCardData" where
  "card0 c = \<lparr>pc_name = asc ''Taro'', pc_company = [], pc_role = [],
     pc_email = asc ''taro@example.com'', pc_phone = [], pc_confidence = Fin c\<rparr>"

text \<open>Options of the two composers, with and without a tone, and a reply.\<close>

definition email_options :: "tone option \<Rightarrow> GenerateEmailOptions" where
  "email_options t =
     \<lparr>ge_cardData = \<lparr>bc_name = Some (asc ''Taro''), bc_company = None, bc_role = None,
         bc_email = Some (asc ''taro@example.com''), bc_phone = None, bc_address = None,
         bc_website = None\<rparr>,
      ge_senderName = asc ''Hanako'', ge_senderCompany = None, ge_tone = t,
      ge_language = Some ja, ge_customMessage = None\<rparr>"

definition mail_options :: GenerateMailOptions where
  "mail_options = \<lparr>gm_tone = None, gm_language = None, gm_customMessage = None,
     gm_senderName = None, gm_senderCompany = None\<rparr>"

definition reply0 :: json where
  "reply0 = JObj [(asc ''subject'', JStr (asc ''Hello'')), (asc ''body'', JStr (asc ''Thanks''))]"

text \<open>A stream that fails after one chunk, and collaborators that all succeed.\<close>

definition stream0 :: chunk_stream where
  "stream0 = Chunk (Some (asc ''Dear Ta'')) Failed"

definition collaborators0 :: collaborators where
  "collaborators0 = \<lparr>performOCR = Inr (asc ''Hello''), saveCardData = Inr (asc ''card-1''),
     sendEmailViaAPI = Inr (asc ''message-1''), updateCardWithEmailInfo = Inr True\<rparr>"

section \<open>Evaluation\<close>

lemmas js_eval = asc_def trim_def is_space_def in_ranges_def space_def js_includes_def
  or_str_def or_opt_def truthy_def nonblank_lines_def

lemmas rx_eval = js_match_def js_test_def test_g_def chr_def lit_def seqs_def plus_def star_def
  opt_def digit_def word_def cls_match_def

lemma text0_nonblank: "trim text0 \<noteq> []"
  by (simp add: text0_def js_eval)

lemma text0_language: "detectedLanguage text0 no_options = en"
  by (simp add: detectedLanguage_def no_options_def japanese_chars_def text0_def js_eval rx_eval)

lemma text0_lines:
  "nonblank_lines text0 = [asc ''Taro Yamada'', asc ''Example Corp.'', asc ''taro@example.com'']"
  by (simp add: text0_def js_eval)

lemma text0_email: "js_match False PATTERNS_email text0 = Some (asc ''taro@example.com'')"
  by (simp add: PATTERNS_email_def text0_def js_eval rx_eval)

lemma text0_phone: "js_match False PATTERNS_phone_intl text0 = None"
  by (simp add: PATTERNS_phone_intl_def text0_def js_eval rx_eval)

lemma text0_company: "js_match True PATTERNS_company_en text0 = Some (asc ''Corp.'')"
  by (simp add: PATTERNS_company_en_def text0_def js_eval rx_eval)

lemma text0_role: "js_match True PATTERNS_role_en text0 = None"
  by (simp add: PATTERNS_role_en_def text0_def js_eval rx_eval)

lemma text0_name:
  "name_loop True PATTERNS_phone_intl PATTERNS_company_en 0 0
     [asc ''Taro Yamada'', asc ''Example Corp.'', asc ''taro@example.com'']
   = Some (asc ''Taro Yamada'')"
  by (simp add: PATTERNS_phone_intl_def PATTERNS_company_en_def js_eval rx_eval)

lemma text0_regex:
  "extractWithRegex text0 en =
     \<lparr>rr_name = Some (asc ''Taro Yamada''), rr_company = Some (asc ''Corp.''), rr_role = None,
      rr_email = Some (asc ''taro@example.com''), rr_phone = None\<rparr>"
proof -
  have t: "trim (asc ''Corp.'') = asc ''Corp.''"
    by (simp add: js_eval)
  show ?thesis
    by (simp add: extractWithRegex_def text0_lines text0_email text0_phone text0_company
        text0_role text0_name t del: name_loop.simps)
qed

lemma extractWithGPT_arguments0:
  "0 < c \<Longrightarrow> c \<le> 1 \<Longrightarrow> extractWithGPT (answering (GptParsed (arguments0 c))) t = Inr (card0 c)"
  by (simp add: extractWithGPT_def answering_def arguments0_def card0_def or_opt_def or_str_def
      or_json_def json_truthy_def ToNumber_def asc_def)

section \<open>The merge policy of the structured parser\<close>

lemma or_opt_Nil: "or_opt r [] = (case r of Some v \<Rightarrow> v | None \<Rightarrow> [])"
  by (cases r) (simp_all add: or_opt_def or_str_def)

lemma or_str_if: "or_str x y = (if x \<noteq> [] then x else y)"
  by (simp add: or_str_def)

text \<open>
  C1. In every run of \<open>parseCard\<close> that reaches the merge (the text is not blank and
  the extraction returns a candidate), a candidate whose confidence is at least 0.7 is
  returned exactly as it is, whatever the options: no field is replaced and the
  confidence is not adjusted.
\<close>

theorem parseCard_high_confidence:
  assumes "trim rawText \<noteq> []" and "extractWithGPT gpt rawText = Inr a"
    and "pc_confidence a = Fin c" and "7 / 10 \<le> c"
  shows "parseCard gpt rawText options = Inr a"
  using assms by (simp add: parseCard_def)

theorem parseCard_high_confidence_witness:
  "parseCard (answering (GptParsed (arguments0 0.9))) text0 no_options = Inr (card0 0.9)"
proof -
  have h: "extractWithGPT (answering (GptParsed (arguments0 0.9))) text0 = Inr (card0 0.9)"
    by (rule extractWithGPT_arguments0) simp_all
  have c: "pc_confidence (card0 0.9) = Fin 0.9"
    by (simp add: card0_def)
  show ?thesis
    using parseCard_high_confidence [OF text0_nonblank h c, of no_options] by simp
qed

text \<open>
  C2. Where the candidate's confidence is below 0.7 and the fallback is enabled (the
  default), every field of the result is the candidate's value when that is not empty,
  else the value of the pattern extractor, else empty; the confidence of the result is
  the maximum of the candidate's confidence and 0.6, hence at least 0.6.
\<close>

theorem parseCard_low_confidence_merge:
  assumes "trim rawText \<noteq> []" and "extractWithGPT gpt rawText = Inr a"
    and "pc_confidence a = Fin c" and "c < 7 / 10"
    and "fallbackToRegex options \<noteq> Some False"
    and "b = extractWithRegex rawText (detectedLanguage rawText options)"
  shows "parseCard gpt rawText options =
     Inr \<lparr>pc_name = (if pc_name a \<noteq> [] then pc_name a
                      else case rr_name b of Some v \<Rightarrow> v | None \<Rightarrow> []),
          pc_company = (if pc_company a \<noteq> [] then pc_company a
                      else case rr_company b of Some v \<Rightarrow> v | None \<Rightarrow> []),
          pc_role = (if pc_role a \<noteq> [] then pc_role a
                      else case rr_role b of Some v \<Rightarrow> v | None \<Rightarrow> []),
          pc_email = (if pc_email a \<noteq> [] then pc_email a
                      else case rr_email b of Some v \<Rightarrow> v | None \<Rightarrow> []),
          pc_phone = (if pc_phone a \<noteq> [] then pc_phone a
                      else case rr_phone b of Some v \<Rightarrow> v | None \<Rightarrow> []),
          pc_confidence = Fin (max c (6 / 10))\<rparr>
     \<and> 6 / 10 \<le> max c (6 / 10)"
proof -
  have fb: "(case fallbackToRegex options of None \<Rightarrow> True | Some x \<Rightarrow> x)"
    using assms(5) by (cases "fallbackToRegex options") auto
  have mx: "Math_max (Fin c) (Fin (6 / 10)) = Fin (max c (6 / 10))"
    by (simp add: max_def)
  show ?thesis
    using assms(1-4) fb mx
    by (simp add: parseCard_def Let_def assms(6) or_opt_Nil or_str_if)
qed

theorem parseCard_low_confidence_merge_witness:
  "parseCard (answering (GptParsed (arguments0 0.5))) text0 no_options =
     Inr \<lparr>pc_name = asc ''Taro'', pc_company = asc ''Corp.'', pc_role = [],
          pc_email = asc ''taro@example.com'', pc_phone = [], pc_confidence = Fin 0.6\<rparr>"
proof -
  have h: "extractWithGPT (answering (GptParsed (arguments0 0.5))) text0 = Inr (card0 0.5)"
    by (rule extractWithGPT_arguments0) simp_all
  have c: "pc_confidence (card0 0.5) = Fin 0.5"
    by (simp add: card0_def)
  have f: "fallbackToRegex no_options \<noteq> Some False"
    by (simp add: no_options_def)
  have b: "extractWithRegex text0 en = extractWithRegex text0 (detectedLanguage text0 no_options)"
    by (simp add: text0_language)
  have n: "asc ''Taro'' \<noteq> []" "asc ''taro@example.com'' \<noteq> []"
    by (simp_all add: asc_def)
  show ?thesis
    using parseCard_low_confidence_merge [OF text0_nonblank h c _ f b] n
    by (simp add: card0_def text0_regex)
qed

text \<open>
  C3. When the extraction request fails, \<open>parseCard\<close> (on a text that is not blank,
  with the fallback enabled) returns the fields of the pattern extractor alone, absent
  ones empty, with the confidence 0.4, and no error. On the server,
  \<open>parseCardDataWithGPT\<close> returns the output of its own pattern extractor, whose
  confidence is 0.4.
\<close>

theorem extraction_failure_falls_back:
  "(trim rawText \<noteq> [] \<and> extractWithGPT gpt rawText = Inl e
      \<and> fallbackToRegex options \<noteq> Some False \<longrightarrow>
    parseCard gpt rawText options =
      (let b = extractWithRegex rawText (detectedLanguage rawText options)
       in Inr \<lparr>pc_name = (case rr_name b of Some v \<Rightarrow> v | None \<Rightarrow> []),
               pc_company = (case rr_company b of Some v \<Rightarrow> v | None \<Rightarrow> []),
               pc_role = (case rr_role b of Some v \<Rightarrow> v | None \<Rightarrow> []),
               pc_email = (case rr_email b of Some v \<Rightarrow> v | None \<Rightarrow> []),
               pc_phone = (case rr_phone b of Some v \<Rightarrow> v | None \<Rightarrow> []),
               pc_confidence = Fin (4 / 10)\<rparr>))
   \<and> (openai rawText \<in> {Rejected, NoContent, Unparsable} \<longrightarrow>
        parseCardDataWithGPT valid_email valid_url openai rawText = extractWithRegex_server rawText
        \<and> oc_confidence (parseCardDataWithGPT valid_email valid_url openai rawText) = Fin (4 / 10))"
proof -
  have web: "parseCard gpt rawText options =
      (let b = extractWithRegex rawText (detectedLanguage rawText options)
       in Inr \<lparr>pc_name = (case rr_name b of Some v \<Rightarrow> v | None \<Rightarrow> []),
               pc_company = (case rr_company b of Some v \<Rightarrow> v | None \<Rightarrow> []),
               pc_role = (case rr_role b of Some v \<Rightarrow> v | None \<Rightarrow> []),
               pc_email = (case rr_email b of Some v \<Rightarrow> v | None \<Rightarrow> []),
               pc_phone = (case rr_phone b of Some v \<Rightarrow> v | None \<Rightarrow> []),
               pc_confidence = Fin (4 / 10)\<rparr>)"
    if "trim rawText \<noteq> []" and "extractWithGPT gpt rawText = Inl e"
      and "fallbackToRegex options \<noteq> Some False"
  proof -
    have fb: "(case fallbackToRegex options of None \<Rightarrow> True | Some x \<Rightarrow> x)"
      using that(3) by (cases "fallbackToRegex options") auto
    show ?thesis
      using that(1,2) fb
      by (simp add: parseCard_def Let_def or_opt_Nil)
  qed
  have server: "parseCardDataWithGPT valid_email valid_url openai rawText = extractWithRegex_server rawText"
    if "openai rawText \<in> {Rejected, NoContent, Unparsable}"
    using that by (auto simp add: parseCardDataWithGPT_def)
  have conf: "oc_confidence (extractWithRegex_server rawText) = Fin (4 / 10)"
    by (simp add: extractWithRegex_server_def Let_def)
  show ?thesis
    using web server conf by simp
qed

lemma text0_server:
  "extractWithRegex_server text0 =
     \<lparr>oc_name = Some (asc ''Taro Yamada''), oc_company = Some (asc ''Example Corp.''),
      oc_role = Some [], oc_email = Some (asc ''taro@example.com''), oc_phone = Some [],
      oc_address = Some [], oc_website = None, oc_confidence = Fin (4 / 10)\<rparr>"
proof -
  have p: "js_match False phoneRegex text0 = None"
    by (simp add: phoneRegex_def text0_def js_eval rx_eval)
  have u: "js_match False urlRegex text0 = None"
    by (simp add: urlRegex_def text0_def js_eval rx_eval)
  have n: "asc ''taro@example.com'' \<noteq> []"
    by (simp add: asc_def)
  show ?thesis
    using n
    by (simp add: extractWithRegex_server_def emailRegex_def text0_email text0_lines p u
        line_or_empty_def or_undefined_def or_opt_def or_str_def)
qed

theorem extraction_failure_falls_back_witness:
  "parseCard (answering GptThrows) text0 no_options =
     Inr \<lparr>pc_name = asc ''Taro Yamada'', pc_company = asc ''Corp.'', pc_role = [],
          pc_email = asc ''taro@example.com'', pc_phone = [], pc_confidence = Fin (4 / 10)\<rparr>
   \<and> parseCardDataWithGPT (answering True) (answering True) rejecting text0 =
     \<lparr>oc_name = Some (asc ''Taro Yamada''), oc_company = Some (asc ''Example Corp.''),
      oc_role = Some [], oc_email = Some (asc ''taro@example.com''), oc_phone = Some [],
      oc_address = Some [], oc_website = None, oc_confidence = Fin (4 / 10)\<rparr>"
proof -
  have h: "extractWithGPT (answering GptThrows) text0 = Inl GptError"
    by (simp add: extractWithGPT_def answering_def)
  have f: "fallbackToRegex no_options \<noteq> Some False"
    by (simp add: no_options_def)
  have r: "rejecting text0 \<in> {Rejected, NoContent, Unparsable}"
    by (simp add: rejecting_def)
  note fb = extraction_failure_falls_back [of text0 "answering GptThrows" GptError no_options
      rejecting "answering True" "answering True"]
  have w: "parseCard (answering GptThrows) text0 no_options =
      (let b = extractWithRegex text0 (detectedLanguage text0 no_options)
       in Inr \<lparr>pc_name = (case rr_name b of Some v \<Rightarrow> v | None \<Rightarrow> []),
               pc_company = (case rr_company b of Some v \<Rightarrow> v | None \<Rightarrow> []),
               pc_role = (case rr_role b of Some v \<Rightarrow> v | None \<Rightarrow> []),
               pc_email = (case rr_email b of Some v \<Rightarrow> v | None \<Rightarrow> []),
               pc_phone = (case rr_phone b of Some v \<Rightarrow> v | None \<Rightarrow> []),
               pc_confidence = Fin (4 / 10)\<rparr>)"
    using fb text0_nonblank h f by blast
  have s: "parseCardDataWithGPT (answering True) (answering True) rejecting text0
      = extractWithRegex_server text0"
    using fb r by blast
  show ?thesis
    using w s by (simp add: text0_language text0_regex text0_server)
qed

section \<open>Overrides of the server-side composer\<close>

text \<open>
  C4, as amended. For every recipient and every pair of overrides whose subject and
  body are both supplied and both non-empty, \<open>generateMail\<close> returns exactly that
  subject and that body, and the client is never called: no prompt is sent and no
  template is built.
\<close>

theorem generateMail_overrides_verbatim:
  assumes "o_subject ov = Some s" and "o_body ov = Some b" and "s \<noteq> []" and "b \<noteq> []"
  shows "generateMail openai recipient (Some ov) = (\<lparr>m_subject = s, m_body = b\<rparr>, [])"
  using assms by (simp add: generateMail_def truthy_def)

theorem generateMail_overrides_verbatim_witness:
  "generateMail rejecting recipient0
     (Some \<lparr>o_subject = Some (asc ''Hello''), o_body = Some (asc ''Thanks'')\<rparr>)
   = (\<lparr>m_subject = asc ''Hello'', m_body = asc ''Thanks''\<rparr>, [])"
  using generateMail_overrides_verbatim
    [of "\<lparr>o_subject = Some (asc ''Hello''), o_body = Some (asc ''Thanks'')\<rparr>"
        "asc ''Hello''" "asc ''Thanks''" rejecting recipient0]
  by (simp add: asc_def)

text \<open>
  C4 as stated fails where a supplied override is the empty string: the guard tests
  truthiness, so with the subject \<open>''\<close> and the body \<open>Thanks\<close> both supplied the
  client is called (one prompt is sent) and, the call being rejected, the fallback
  template is returned, whose subject is not the empty one that was supplied.
\<close>

theorem generateMail_empty_subject_counterexample:
  "generateMail rejecting recipient0
     (Some \<lparr>o_subject = Some [], o_body = Some (asc ''Thanks'')\<rparr>)
   = (fallback_template recipient0, [userPrompt recipient0])
   \<and> m_subject (fallback_template recipient0) \<noteq> []"
  by (simp add: generateMail_def truthy_def rejecting_def fallback_template_def)

section \<open>The closing sentence of the composers\<close>

lemma endsWith_append: "endsWith (xs @ t) t"
  by (simp add: endsWith_def)

lemma endsWith_last:
  assumes "endsWith s t" and "t \<noteq> []"
  shows "last s = last t"
proof -
  from assms have d: "drop (length s - length t) s = t" and l: "length t \<le> length s"
    by (simp_all add: endsWith_def)
  from assms(2) l have "length s - length t < length s"
    by (cases t) auto
  then have "last (drop (length s - length t) s) = last s"
    by (rule last_drop)
  with d show ?thesis by simp
qed

lemma fallback_template_closing: "endsWith (m_body (fallback_template r)) closing_phrase"
proof -
  have "\<exists>xs. m_body (fallback_template r) = xs @ closing_phrase"
    unfolding fallback_template_def
    by (simp only: MailContent.simps append_assoc [symmetric]) blast
  then show ?thesis
    by (auto simp add: endsWith_append)
qed

text \<open>
  C5, as amended. The server-side \<open>generateMail\<close> writes in the Japanese professional
  tone only. On its AI path and on its template path (that is, when the overrides are
  not used) the body it returns ends with the canonical closing sentence; a validated
  AI body that does not end with it is returned with a blank line and the sentence
  appended, and is not rejected.
\<close>

theorem generateMail_closing_sentence:
  assumes "\<not> overrides_used overrides"
  shows "endsWith (m_body (fst (generateMail openai recipient overrides))) closing_phrase
     \<and> (\<forall>j v. openai (userPrompt recipient) = Parsed j \<and> emailSchema_parse j = Some v
            \<and> \<not> endsWith (m_body v) closing_phrase \<longrightarrow>
          fst (generateMail openai recipient overrides)
            = v\<lparr>m_body := m_body v @ [10, 10] @ closing_phrase\<rparr>)"
proof -
  have g: "\<not> (case overrides of None \<Rightarrow> False
                | Some ov \<Rightarrow> truthy (o_subject ov) \<and> truthy (o_body ov))"
    using assms by (simp add: overrides_used_def)
  have a: "endsWith (m_body v @ [10, 10] @ closing_phrase) closing_phrase" for v :: MailContent
    using endsWith_append [of "m_body v @ [10, 10]" closing_phrase] by simp
  show ?thesis
    using g a fallback_template_closing
    by (simp add: generateMail_def Let_def split: completion.splits option.splits)
qed

theorem generateMail_closing_sentence_witness:
  "fst (generateMail (answering (Parsed reply0)) recipient0 None)
     = \<lparr>m_subject = asc ''Hello'', m_body = asc ''Thanks'' @ [10, 10] @ closing_phrase\<rparr>
   \<and> endsWith (m_body (fst (generateMail (answering (Parsed reply0)) recipient0 None)))
        closing_phrase"
proof -
  have o: "\<not> overrides_used None"
    by (simp add: overrides_used_def)
  have p: "emailSchema_parse reply0 = Some \<lparr>m_subject = asc ''Hello'', m_body = asc ''Thanks''\<rparr>"
    by (simp add: emailSchema_parse_def reply0_def field_def asc_def)
  have e: "\<not> endsWith (asc ''Thanks'') closing_phrase"
    by (simp add: endsWith_def closing_phrase_def asc_def)
  have c: "answering (Parsed reply0) (userPrompt recipient0) = Parsed reply0"
    by (simp add: answering_def)
  have a: "endsWith (asc ''Thanks'' @ [10, 10] @ closing_phrase) closing_phrase"
    using endsWith_append [of "asc ''Thanks'' @ [10, 10]" closing_phrase] by simp
  show ?thesis
    using generateMail_closing_sentence [OF o, of "answering (Parsed reply0)" recipient0] p e c a
    by simp
qed

text \<open>
  C5 as stated fails for the composer of \<open>emailGenerator.ts\<close>, which is the one that
  has a tone and a language. In the Japanese professional tone its template body ends
  with the sender's name, after another closing sentence, and its AI path returns the
  body as it was generated.
\<close>

theorem generateEmail_closing_counterexample:
  "(case pe_body (generateEmail (email_options (Some professional)) Rejected) of
      Some b \<Rightarrow> \<not> endsWith b closing_phrase | None \<Rightarrow> False)
   \<and> pe_tone (generateEmail (email_options (Some professional)) Rejected) = Some professional
   \<and> pe_language (generateEmail (email_options (Some professional)) Rejected) = Some ja
   \<and> generateEmail (email_options (Some professional)) (Parsed reply0)
       = \<lparr>pe_subject = Some (asc ''Hello''), pe_body = Some (asc ''Thanks''),
          pe_tone = Some professional, pe_language = Some ja\<rparr>
   \<and> \<not> endsWith (asc ''Thanks'') closing_phrase"
proof -
  have l: "last closing_phrase = 12290" "closing_phrase \<noteq> []"
    by (simp_all add: closing_phrase_def)
  have "last (snd (templates_ja n (asc ''Hanako'') professional)) = 111" for n
    by (simp add: templates_ja_def asc_def)
  then have t: "\<not> endsWith (snd (templates_ja n (asc ''Hanako'') professional)) closing_phrase" for n
    using endsWith_last [of "snd (templates_ja n (asc ''Hanako'') professional)" closing_phrase] l
    by auto
  have e: "\<not> endsWith (asc ''Thanks'') closing_phrase"
    by (simp add: endsWith_def closing_phrase_def asc_def)
  have p: "EmailContentSchema_parse professional ja
             [(asc ''subject'', JStr (asc ''Hello'')), (asc ''body'', JStr (asc ''Thanks''))]
           = Some \<lparr>pe_subject = Some (asc ''Hello''), pe_body = Some (asc ''Thanks''),
                   pe_tone = Some professional, pe_language = Some ja\<rparr>"
    by (simp add: EmailContentSchema_parse_def field_def json_truthy_def asc_def)
  show ?thesis
    using t e p
    by (simp add: generateEmail_def generateTemplateEmail_def email_options_def reply0_def Let_def)
qed

section \<open>Failure of the stream\<close>

lemma email_stream_loop_fails:
  "stream_fails s \<Longrightarrow> snd (email_stream_loop t l sub bod isBody s) = None"
  by (induction s arbitrary: sub bod isBody) (simp_all add: Let_def)

lemma mail_stream_loop_fails:
  "stream_fails s \<Longrightarrow> snd (mail_stream_loop subj t l bod s) = None"
  by (induction s arbitrary: bod) (simp_all add: Let_def)

text \<open>
  C6. When the stream fails, after any number of chunks, the value the generator returns
  is the value of the template generator on the same arguments, in the server's
  \<open>generateEmailStream\<close> and in the web helper's \<open>generateMailStream\<close>. The template
  generators do not see the chunks, so nothing of the accumulated body is in the result.
\<close>

theorem stream_failure_returns_template:
  assumes "stream_fails s"
  shows "snd (generateEmailStream options (Stream s)) = generateTemplateEmail options
     \<and> snd (generateMailStream cardData moptions (Stream s)) = generateWithTemplate cardData moptions"
  using assms
  by (simp add: generateEmailStream_def generateMailStream_def Let_def
      email_stream_loop_fails mail_stream_loop_fails)

theorem stream_failure_returns_template_witness:
  "snd (generateEmailStream (email_options (Some professional)) (Stream stream0))
     = generateTemplateEmail (email_options (Some professional))
   \<and> snd (generateMailStream (card0 0.9) mail_options (Stream stream0))
     = generateWithTemplate (card0 0.9) mail_options"
proof -
  have f: "stream_fails stream0"
    by (simp add: stream0_def)
  show ?thesis
    by (rule stream_failure_returns_template [OF f])
qed

section \<open>Progress of the worker\<close>




section \<open>The range of the confidence\<close>

lemma clamp_in_unit: "x \<noteq> NaN \<Longrightarrow> in_unit (Math_max (Fin 0) (Math_min (Fin 1) x))"
  by (cases x) (auto simp add: in_unit_def)

lemma numeric_confidence_ToNumber:
  assumes "numeric_confidence (GptParsed parsed)"
  shows "\<exists>x. ToNumber (or_json (ga_confidence parsed) (JNum 0.5)) = Some (Fin x)"
proof (cases "ga_confidence parsed")
  case None
  then have "ToNumber (or_json (ga_confidence parsed) (JNum 0.5)) = Some (Fin 0.5)"
    by (simp add: or_json_def json_truthy_def ToNumber_def)
  then show ?thesis ..
next
  case (Some v)
  with assms obtain x where v: "v = JNum x"
    by (cases v) (simp_all add: numeric_confidence_def)
  have "ToNumber (or_json (Some (JNum x)) (JNum 0.5)) = Some (Fin (if x \<noteq> 0 then x else 0.5))"
    by (simp add: or_json_def json_truthy_def ToNumber_def)
  with Some v show ?thesis
    by simp
qed

lemma extractWithGPT_in_unit:
  assumes "numeric_confidence (gpt t)" and "extractWithGPT gpt t = Inr a"
  shows "in_unit (pc_confidence a)"
proof (cases "gpt t")
  case (GptParsed parsed)
  with assms(1) obtain x where "ToNumber (or_json (ga_confidence parsed) (JNum 0.5)) = Some (Fin x)"
    using numeric_confidence_ToNumber by auto
  with assms(2) GptParsed have "pc_confidence a = Math_max (Fin 0) (Math_min (Fin 1) (Fin x))"
    by (auto simp add: extractWithGPT_def)
  then show ?thesis
    using clamp_in_unit [of "Fin x"] by simp
qed (use assms(2) in \<open>simp_all add: extractWithGPT_def\<close>)

lemma Math_max_in_unit:
  "in_unit x \<Longrightarrow> 0 \<le> d \<Longrightarrow> d \<le> 1 \<Longrightarrow> in_unit (Math_max x (Fin d))"
  by (cases x) (auto simp add: in_unit_def)

lemma parseCard_in_unit:
  assumes "numeric_confidence (gpt t)" and "parseCard gpt t options = Inr m"
  shows "in_unit (pc_confidence m)"
proof (cases "extractWithGPT gpt t")
  case (Inl e)
  with assms(2) have "pc_confidence m = Fin (4 / 10)"
    by (auto simp add: parseCard_def Let_def split: if_splits)
  then show ?thesis
    by (simp add: in_unit_def)
next
  case (Inr a)
  with assms(1) have u: "in_unit (pc_confidence a)"
    by (rule extractWithGPT_in_unit)
  from assms(2) Inr have "m = a \<or> pc_confidence m = Math_max (pc_confidence a) (Fin (6 / 10))"
    by (auto simp add: parseCard_def Let_def split: if_splits)
  with u show ?thesis
    by (auto intro!: Math_max_in_unit)
qed

lemma confidence_or_half_in_unit: "confidence_or_half v = Some k \<Longrightarrow> in_unit k"
  by (auto simp add: confidence_or_half_def in_unit_def split: if_splits option.splits json.splits)

lemma OCRResultSchema_parse_in_unit:
  "OCRResultSchema_parse ve vu g = Some v \<Longrightarrow> in_unit (oc_confidence v)"
  by (auto simp add: OCRResultSchema_parse_def bind_eq_Some_conv confidence_or_half_in_unit)

lemma extractWithRegex_server_in_unit: "in_unit (oc_confidence (extractWithRegex_server t))"
  by (simp add: extractWithRegex_server_def Let_def in_unit_def)

lemma parseCardDataWithGPT_in_unit:
  "in_unit (oc_confidence (parseCardDataWithGPT ve vu openai t))"
  by (simp add: parseCardDataWithGPT_def extractWithRegex_server_in_unit
      OCRResultSchema_parse_in_unit split: completion.splits json.splits option.splits)

lemma extractBusinessCardInfo_percent:
  "0 \<le> ci_confidence (extractBusinessCardInfo t) \<and> ci_confidence (extractBusinessCardInfo t) \<le> 100"
  by (simp add: extractBusinessCardInfo_def Let_def)

text \<open>
  C8, as amended. The confidence of the AI-based and the pattern-based parsers lies
  between 0 and 1: that of a candidate of \<open>extractWithGPT\<close> and of a result of
  \<open>parseCard\<close> when the confidence of the reply is a number or is missing, and that
  of the result of the server's \<open>parseCardDataWithGPT\<close>, which validates its reply. The
  worker-side \<open>extractBusinessCardInfo\<close> counts in percent, between 0 and 100, and
  \<open>saveCardData\<close> stores a hundredth of it, which lies between 0 and 1.
\<close>

theorem confidence_ranges:
  "(numeric_confidence (gpt t) \<and> extractWithGPT gpt t = Inr a \<longrightarrow> in_unit (pc_confidence a))
   \<and> (numeric_confidence (gpt t) \<and> parseCard gpt t options = Inr m \<longrightarrow>
        in_unit (pc_confidence m))
   \<and> in_unit (oc_confidence (parseCardDataWithGPT valid_email valid_url openai t))
   \<and> 0 \<le> ci_confidence (extractBusinessCardInfo t)
   \<and> ci_confidence (extractBusinessCardInfo t) \<le> 100
   \<and> in_unit (pc_confidence (saved_extractedData (extractBusinessCardInfo t)))"
proof -
  have "in_unit (pc_confidence (saved_extractedData (extractBusinessCardInfo t)))"
    using extractBusinessCardInfo_percent [of t]
    by (simp add: saved_extractedData_def in_unit_def)
  then show ?thesis
    using extractBusinessCardInfo_percent [of t] extractWithGPT_in_unit parseCard_in_unit
    by (auto simp add: parseCardDataWithGPT_in_unit)
qed

lemma worker_email: "js_match False emailPattern (asc ''a@b.co'') = Some (asc ''a@b.co'')"
  by (simp add: emailPattern_def js_eval rx_eval)

lemma worker_card:
  "extractBusinessCardInfo (asc ''a@b.co'') =
     \<lparr>ci_name = asc ''Unknown'', ci_email = asc ''a@b.co'', ci_company = asc ''Unknown Company'',
      ci_role = [], ci_confidence = 40\<rparr>"
proof -
  have l: "nonblank_lines (asc ''a@b.co'') = [asc ''a@b.co'']"
    by (simp add: js_eval)
  have c: "first_company companyPatterns (asc ''a@b.co'') = []"
    by (simp add: companyPatterns_def js_eval rx_eval)
  have n: "find_name [asc ''a@b.co''] = []"
    using worker_email by (simp add: js_test_def)
  have e: "asc ''a@b.co'' \<noteq> []"
    by (simp add: asc_def)
  have i: "js_includes (asc ''a@b.co'') []"
    by (simp add: js_includes_def asc_def)
  show ?thesis
    using e i
    by (simp add: extractBusinessCardInfo_def Let_def l c n worker_email or_opt_def or_str_def
        del: find_name.simps)
qed

theorem confidence_ranges_witness:
  "in_unit (pc_confidence (card0 0.9))
   \<and> in_unit (oc_confidence (parseCardDataWithGPT (answering True) (answering True) rejecting text0))
   \<and> 0 \<le> ci_confidence (extractBusinessCardInfo text0)
   \<and> ci_confidence (extractBusinessCardInfo text0) \<le> 100
   \<and> in_unit (pc_confidence (saved_extractedData (extractBusinessCardInfo text0)))"
proof -
  have n: "numeric_confidence (answering (GptParsed (arguments0 0.9)) text0)"
    by (simp add: numeric_confidence_def answering_def arguments0_def)
  have h: "extractWithGPT (answering (GptParsed (arguments0 0.9))) text0 = Inr (card0 0.9)"
    by (rule extractWithGPT_arguments0) simp_all
  have p: "parseCard (answering (GptParsed (arguments0 0.9))) text0 no_options = Inr (card0 0.9)"
    using h text0_nonblank by (simp add: parseCard_def card0_def)
  show ?thesis
    using confidence_ranges [of "answering (GptParsed (arguments0 0.9))" text0 "card0 0.9"
        no_options "card0 0.9" "answering True" "answering True" rejecting] n h p
    by simp
qed

lemma extractWithGPT_arguments1:
  "extractWithGPT (answering (GptParsed arguments1)) t = Inr card1"
proof -
  have "StringToNumber (asc ''high'') = NaN"
    by (simp add: StringToNumber_def unsigned_decimal_def is_digit_def js_eval Let_def)
  then show ?thesis
    by (simp add: extractWithGPT_def answering_def arguments1_def card1_def or_opt_def
        or_str_def or_json_def json_truthy_def ToNumber_def asc_def)
qed

text \<open>
  C8 as stated fails on the worker side: for a text that holds an email address and
  nothing else, the confidence of \<open>extractBusinessCardInfo\<close> is 40. It also fails for a
  reply whose confidence is the word \<open>high\<close>: the clamp yields NaN, which is not below
  0.7, and \<open>parseCard\<close> returns the candidate with it.
\<close>

theorem worker_confidence_counterexample:
  "ci_confidence (extractBusinessCardInfo (asc ''a@b.co'')) = 40
   \<and> \<not> ci_confidence (extractBusinessCardInfo (asc ''a@b.co'')) \<le> 1
   \<and> parseCard (answering (GptParsed arguments1)) text0 no_options = Inr card1
   \<and> pc_confidence card1 = NaN
   \<and> \<not> in_unit (pc_confidence card1)"
  using text0_nonblank
  by (simp add: worker_card parseCard_def extractWithGPT_arguments1 card1_def in_unit_def)

section \<open>The template generators\<close>

text \<open>
  C9 fails on \<open>generateTemplateEmail\<close> when the options carry no tone: the generator
  returns, but what it returns has neither a subject nor a body. \<open>generateEmail\<close>
  reaches it with such options whenever its request fails, since it hands on the options
  it was given and not the tone it defaulted.
\<close>

theorem generateEmail_without_tone:
  "generateEmail (email_options None) Rejected
     = \<lparr>pe_subject = None, pe_body = None, pe_tone = None, pe_language = Some ja\<rparr>
   \<and> generateTemplateEmail (email_options None)
     = \<lparr>pe_subject = None, pe_body = None, pe_tone = None, pe_language = Some ja\<rparr>"
  by (simp add: generateEmail_def generateTemplateEmail_def email_options_def Let_def)

text \<open>With a tone, \<open>generateTemplateEmail\<close> returns a subject and a body that are not empty.\<close>

lemma generateTemplateEmail_with_tone:
  assumes "ge_tone options = Some t"
  shows "\<exists>s b. pe_subject (generateTemplateEmail options) = Some s \<and> s \<noteq> []
     \<and> pe_body (generateTemplateEmail options) = Some b \<and> b \<noteq> []"
  using assms
  by (cases t)
    (simp_all add: generateTemplateEmail_def Let_def templates_ja_def templates_en_def asc_def)

text \<open>
  The template generator of the web helper defaults the tone as well as the language;
  its subject and its body are never empty.
\<close>

lemma template_subject_split:
  "\<exists>b a. split_at (asc ''{name}'') (tp_subject (EMAIL_TEMPLATES t l)) = Some (b, a)
     \<and> (b \<noteq> [] \<or> a \<noteq> [])"
  by (cases t; cases l) (simp_all add: asc_def)

lemma template_greeting_split:
  "\<exists>b a. split_at (asc ''{name}'') (tp_greeting (EMAIL_TEMPLATES t l)) = Some (b, a)
     \<and> (b \<noteq> [] \<or> a \<noteq> [])"
  by (cases t; cases l) (simp_all add: asc_def)

lemma replace_nonempty:
  assumes "split_at p s = Some (b, a)" and "b \<noteq> [] \<or> a \<noteq> []"
  shows "replace s p r \<noteq> []"
  using assms by (auto simp add: replace_def)

lemma generateWithTemplate_nonempty:
  "ec_subject (generateWithTemplate cardData options) \<noteq> []
   \<and> ec_body (generateWithTemplate cardData options) \<noteq> []"
proof -
  have s: "replace (tp_subject (EMAIL_TEMPLATES t l)) (asc ''{name}'') r \<noteq> []" for t l r
    using template_subject_split [of t l] replace_nonempty by blast
  have g: "replace (tp_greeting (EMAIL_TEMPLATES t l)) (asc ''{name}'') r \<noteq> []" for t l r
    using template_greeting_split [of t l] replace_nonempty by blast
  show ?thesis
    by (simp add: generateWithTemplate_def Let_def s g)
qed

section \<open>Placeholders of the worker-side extractor\<close>

text \<open>
  C10. For every text, the name, the email address and the company that
  \<open>extractBusinessCardInfo\<close> returns are not empty: a field that is not found is the
  placeholder \<open>Unknown\<close>, \<open>no-email@example.com\<close> or \<open>Unknown Company\<close>. A text
  in which the email pattern finds nothing gives the placeholder address, and the handler,
  when its collaborators succeed, sends to that record and completes.
\<close>

theorem extractBusinessCardInfo_placeholders:
  "ci_name (extractBusinessCardInfo t) \<noteq> []
   \<and> ci_email (extractBusinessCardInfo t) \<noteq> []
   \<and> ci_company (extractBusinessCardInfo t) \<noteq> []
   \<and> (find_name (nonblank_lines t) = [] \<longrightarrow>
        ci_name (extractBusinessCardInfo t) = asc ''Unknown'')
   \<and> (js_match False emailPattern t = None \<longrightarrow>
        ci_email (extractBusinessCardInfo t) = asc ''no-email@example.com'')
   \<and> (first_company companyPatterns t = [] \<longrightarrow>
        ci_company (extractBusinessCardInfo t) = asc ''Unknown Company'')
   \<and> (performOCR env = Inr t \<and> saveCardData env = Inr cardId \<and> sendEmailViaAPI env = Inr messageId
        \<and> updateCardWithEmailInfo env = Inr ok \<longrightarrow>
        snd (processCardHandler env) =
          Inr \<lparr>hr_success = True, hr_cardInfo = extractBusinessCardInfo t,
               hr_cardId = cardId, hr_emailId = messageId\<rparr>)"
  by (simp add: extractBusinessCardInfo_def processCardHandler_def Let_def or_str_def or_opt_def
      asc_def)

lemma worker_no_email: "js_match False emailPattern (asc ''Hello'') = None"
  by (simp add: emailPattern_def js_eval rx_eval)

lemma worker_no_name: "find_name (nonblank_lines (asc ''Hello'')) = []"
proof -
  have l: "nonblank_lines (asc ''Hello'') = [asc ''Hello'']"
    by (simp add: js_eval)
  have a: "\<not> js_test False non_ascii (asc ''Hello'')"
    by (simp add: non_ascii_def js_eval rx_eval)
  have b: "\<not> js_test False two_capitalised_words (asc ''Hello'')"
    by (simp add: two_capitalised_words_def js_eval rx_eval)
  show ?thesis
    using a b by (simp add: l)
qed

lemma worker_no_company: "first_company companyPatterns (asc ''Hello'') = []"
  by (simp add: companyPatterns_def js_eval rx_eval)

theorem extractBusinessCardInfo_placeholders_witness:
  "ci_name (extractBusinessCardInfo (asc ''Hello'')) = asc ''Unknown''
   \<and> ci_email (extractBusinessCardInfo (asc ''Hello'')) = asc ''no-email@example.com''
   \<and> ci_company (extractBusinessCardInfo (asc ''Hello'')) = asc ''Unknown Company''
   \<and> snd (processCardHandler collaborators0) =
       Inr \<lparr>hr_success = True, hr_cardInfo = extractBusinessCardInfo (asc ''Hello''),
            hr_cardId = asc ''card-1'', hr_emailId = asc ''message-1''\<rparr>"
proof -
  have c: "performOCR collaborators0 = Inr (asc ''Hello'')
      \<and> saveCardData collaborators0 = Inr (asc ''card-1'')
      \<and> sendEmailViaAPI collaborators0 = Inr (asc ''message-1'')
      \<and> updateCardWithEmailInfo collaborators0 = Inr True"
    by (simp add: collaborators0_def)
  show ?thesis
    using extractBusinessCardInfo_placeholders [of "asc ''Hello''" collaborators0 "asc ''card-1''"
        "asc ''message-1''" True] worker_no_email worker_no_name worker_no_company c
    by simp
qed

end
